theory Spec2Isabelle
  imports
    Complex_Main
    "HOL-Library.Char_ord"
    "HOL-Library.List_Lexorder"
    "HOL-Library.Product_Lexorder"
    "HOL-Library.Multiset"
    "HOL-Library.Sublist"
begin

section \<open>Holdings reports of beancount: \<^verbatim>\<open>beancount/reports/holdings_reports.py\<close>\<close>

text \<open>
  The development embeds the functions of \<^verbatim>\<open>holdings_reports.py\<close> as HOL functions.
  Python exceptions are values of the type \<open>error\<close>, a function that may raise returns
  \<open>error + 'a\<close>. Functions of other modules (\<^verbatim>\<open>beancount.ops.holdings\<close>,
  \<^verbatim>\<open>beancount.core.display_context\<close>, \<^verbatim>\<open>getters\<close>, \<^verbatim>\<open>table\<close>) are parameters of the
  functions that call them.
\<close>

subsection \<open>Values\<close>

text \<open>
  A \<^verbatim>\<open>Decimal\<close> is modelled by its numeric value, a rational number. The rounding of
  results to the precision of the decimal context (28 digits) and the exponent of a
  \<^verbatim>\<open>Decimal\<close>, which only shows in how it is printed, are not modelled; printing and
  \<^verbatim>\<open>quantize\<close> are parameters.
\<close>

type_synonym decimal = rat

datatype error =
    TypeError
  | ZeroDivisionError
  | KeyError
  | IOError string
  | StopIteration
  | ValueError
  | NameError string
  | ParserError string

abbreviation newline :: char where
  "newline \<equiv> CHR 0x0A"

subsection \<open>\<^verbatim>\<open>is_mutual_fund\<close>\<close>

text \<open>
  \<^verbatim>\<open>re.match('MUTF.*:', ticker)\<close>: the pattern is matched at the start of the string
  and may end anywhere. The pattern language needed here has literal characters and
  \<^verbatim>\<open>.*\<close>, where the dot matches every character but the newline. \<open>re_match p s\<close> holds
  when some prefix of \<open>s\<close> matches \<open>p\<close>; the greedy alternative is tried first, as the
  backtracking matcher of Python does.
\<close>

datatype re_item = Lit char | DotStar

fun re_match :: "re_item list \<Rightarrow> string \<Rightarrow> bool" where
  "re_match [] s = True"
| "re_match (Lit c # p) [] = False"
| "re_match (Lit c # p) (x # s) = (x = c \<and> re_match p s)"
| "re_match (DotStar # p) [] = re_match p []"
| "re_match (DotStar # p) (x # s) =
     ((x \<noteq> newline \<and> re_match (DotStar # p) s) \<or> re_match p (x # s))"

definition MUTF_pattern :: "re_item list" where
  "MUTF_pattern =
     [Lit CHR ''M'', Lit CHR ''U'', Lit CHR ''T'', Lit CHR ''F'', DotStar, Lit CHR '':'']"

definition is_mutual_fund :: "string \<Rightarrow> bool" where
  "is_mutual_fund ticker = re_match MUTF_pattern ticker"

subsection \<open>Holdings\<close>

text \<open>
  \<^verbatim>\<open>holdings.Holding\<close> is a named tuple whose fields may all be \<^verbatim>\<open>None\<close>
  (\<^verbatim>\<open>load_from_csv\<close> starts from a tuple of \<^verbatim>\<open>None\<close>s).
\<close>

record Holding =
  account :: "string option"
  number :: "decimal option"
  currency :: "string option"
  cost_currency :: "string option"
  cost_number :: "decimal option"
  price_number :: "decimal option"
  book_value :: "decimal option"
  market_value :: "decimal option"
  price_date :: "string option"

text \<open>Truth value of a Python object that is \<^verbatim>\<open>None\<close> or a string.\<close>

definition truthy :: "string option \<Rightarrow> bool" where
  "truthy v = (case v of None \<Rightarrow> False | Some s \<Rightarrow> s \<noteq> [])"

text \<open>
  \<^verbatim>\<open>str.lower\<close> on the ASCII letters. No character outside \<^verbatim>\<open>A-Z\<close> is mapped to one
  of the letters of \<^verbatim>\<open>cash\<close> by Python, so the comparison below is not affected.
\<close>

definition lower_char :: "char \<Rightarrow> char" where
  "lower_char c =
     (case map_of (zip ''ABCDEFGHIJKLMNOPQRSTUVWXYZ'' ''abcdefghijklmnopqrstuvwxyz'') c of
        None \<Rightarrow> c
      | Some l \<Rightarrow> l)"

definition lower :: "string \<Rightarrow> string" where
  "lower s = map lower_char s"

text \<open>
  \<^verbatim>\<open>getters.get_values_meta(commodities_map, 'ticker', default=d)\<close> is a dict from the
  commodity names to the value of their \<^verbatim>\<open>ticker\<close> metadata, or to the default \<^verbatim>\<open>d\<close>
  where a commodity has none. In the model the dict maps a name to \<open>Some t\<close> for a
  ticker string \<open>t\<close> and to \<open>None\<close> for the default; a name that is no key of the dict
  is not in the domain of the map.
\<close>

type_synonym tickers_map = "string \<rightharpoonup> string option"

text \<open>
  \<^verbatim>\<open>tickers.get(holding.currency, None)\<close> where the default of the dict is \<^verbatim>\<open>None\<close>
  (\<^verbatim>\<open>export_holdings\<close>): the result is \<^verbatim>\<open>None\<close> or a string.
\<close>

definition tickers_get :: "tickers_map \<Rightarrow> string option \<Rightarrow> string option" where
  "tickers_get tickers cur =
     (case cur of
        None \<Rightarrow> None
      | Some c \<Rightarrow> (case tickers c of None \<Rightarrow> None | Some v \<Rightarrow> v))"

text \<open>Running a fallible function over a list stops at the first exception.\<close>

fun map_result :: "('a \<Rightarrow> error + 'b) \<Rightarrow> 'a list \<Rightarrow> error + 'b list" where
  "map_result f [] = Inr []"
| "map_result f (x # xs) =
     (case f x of
        Inl e \<Rightarrow> Inl e
      | Inr y \<Rightarrow> (case map_result f xs of Inl e \<Rightarrow> Inl e | Inr ys \<Rightarrow> Inr (y # ys)))"

subsection \<open>\<^verbatim>\<open>export_holdings\<close>\<close>

text \<open>\<^verbatim>\<open>ExportEntry\<close>: ticker, number, cost_number, mutual_fund, memo.\<close>

datatype ExportEntry =
  ExportEntry string "decimal option" "decimal option" bool "string option"

text \<open>
  The classification loop of \<^verbatim>\<open>export_holdings\<close>, with its three lists
  \<^verbatim>\<open>holdings_export\<close>, \<^verbatim>\<open>holdings_convert\<close> and \<^verbatim>\<open>holdings_ignore\<close>.
\<close>

fun classify_loop ::
  "tickers_map \<Rightarrow> Holding list \<Rightarrow> Holding list \<times> Holding list \<times> Holding list
     \<Rightarrow> Holding list \<times> Holding list \<times> Holding list" where
  "classify_loop tickers [] buckets = buckets"
| "classify_loop tickers (holding # rest) (holdings_export, holdings_convert, holdings_ignore) =
     (let ticker = tickers_get tickers (currency holding) in
      if (case ticker of None \<Rightarrow> False | Some t \<Rightarrow> lower t = ''cash'') then
        classify_loop tickers rest
          (holdings_export, holdings_convert @ [holding], holdings_ignore)
      else if truthy ticker then
        classify_loop tickers rest
          (holdings_export @ [holding], holdings_convert, holdings_ignore)
      else
        classify_loop tickers rest
          (holdings_export, holdings_convert, holdings_ignore @ [holding]))"

text \<open>
  One iteration of the export loop. \<^verbatim>\<open>tickers[holding.currency]\<close> raises
  \<^verbatim>\<open>KeyError\<close> on a missing key, and \<^verbatim>\<open>re.match\<close> raises \<^verbatim>\<open>TypeError\<close> on \<^verbatim>\<open>None\<close>.
\<close>

definition export_entry :: "tickers_map \<Rightarrow> bool \<Rightarrow> Holding \<Rightarrow> error + ExportEntry" where
  "export_entry tickers promiscuous holding =
     (case currency holding of
        None \<Rightarrow> Inl (KeyError)
      | Some c \<Rightarrow>
          (case tickers c of
             None \<Rightarrow> Inl (KeyError)
           | Some None \<Rightarrow> Inl TypeError
           | Some (Some ticker) \<Rightarrow>
               Inr (ExportEntry ticker (number holding) (cost_number holding)
                      (is_mutual_fund ticker)
                      (if promiscuous then account holding else Some []))))"

text \<open>
  \<^verbatim>\<open>export_holdings\<close>; \<open>holdings_list\<close> is the list that \<^verbatim>\<open>get_assets_holdings\<close>
  returned. The result is \<^verbatim>\<open>(exported, debug_info)\<close>.
\<close>

definition export_holdings ::
  "tickers_map \<Rightarrow> bool \<Rightarrow> Holding list
     \<Rightarrow> error + (ExportEntry list \<times> Holding list \<times> Holding list \<times> Holding list)" where
  "export_holdings tickers promiscuous holdings_list =
     (case classify_loop tickers holdings_list ([], [], []) of
        (holdings_export, holdings_convert, holdings_ignore) \<Rightarrow>
          (case map_result (export_entry tickers promiscuous) holdings_export of
             Inl e \<Rightarrow> Inl e
           | Inr exported \<Rightarrow>
               Inr (exported, holdings_export, holdings_convert, holdings_ignore)))"

text \<open>
  The three classes of the classifier in the words of the specification. A ticker is
  present when the lookup gives a string that is not empty, the empty string being
  false in the test \<^verbatim>\<open>elif ticker\<close>.
\<close>

definition is_cashlike :: "tickers_map \<Rightarrow> Holding \<Rightarrow> bool" where
  "is_cashlike tickers h \<longleftrightarrow>
     (\<exists>t. tickers_get tickers (currency h) = Some t \<and> lower t = ''cash'')"

definition is_exportable :: "tickers_map \<Rightarrow> Holding \<Rightarrow> bool" where
  "is_exportable tickers h \<longleftrightarrow>
     (\<exists>t. tickers_get tickers (currency h) = Some t \<and> t \<noteq> [] \<and> lower t \<noteq> ''cash'')"

definition is_ignored :: "tickers_map \<Rightarrow> Holding \<Rightarrow> bool" where
  "is_ignored tickers h \<longleftrightarrow>
     tickers_get tickers (currency h) = None \<or> tickers_get tickers (currency h) = Some []"

subsection \<open>\<^verbatim>\<open>load_from_csv\<close>\<close>

text \<open>
  The attributes of \<^verbatim>\<open>column_spec\<close>. Its third component, the converter, is \<^verbatim>\<open>D\<close>
  for the five decimal fields and \<^verbatim>\<open>None\<close> for the others; in the typed model the
  attribute decides it (\<open>store\<close>).
\<close>

datatype attr =
    A_account | A_number | A_currency | A_cost_currency | A_cost_number
  | A_price_number | A_book_value | A_market_value | A_price_date

definition column_spec :: "(string \<times> attr) list" where
  "column_spec =
     [(''Account'', A_account),
      (''Units'', A_number),
      (''Currency'', A_currency),
      (''Cost Currency'', A_cost_currency),
      (''Average Cost'', A_cost_number),
      (''Price'', A_price_number),
      (''Book Value'', A_book_value),
      (''Market Value'', A_market_value),
      (''Price Date'', A_price_date)]"

definition column_dict :: "string \<rightharpoonup> attr" where
  "column_dict = map_of column_spec"

definition defaults_dict :: Holding where
  "defaults_dict =
     \<lparr>account = None, number = None, currency = None, cost_currency = None,
      cost_number = None, price_number = None, book_value = None, market_value = None,
      price_date = None\<rparr>"

text \<open>
  \<^verbatim>\<open>value_dict[attr] = converter(value) if converter else value\<close>. The decimal parser
  \<^verbatim>\<open>D\<close> of \<^verbatim>\<open>beancount.core.amount\<close> is the parameter \<open>D\<close>.
\<close>

fun store :: "(string \<Rightarrow> error + decimal) \<Rightarrow> attr \<Rightarrow> string \<Rightarrow> Holding \<Rightarrow> error + Holding" where
  "store D A_account v h = Inr (h\<lparr>account := Some v\<rparr>)"
| "store D A_currency v h = Inr (h\<lparr>currency := Some v\<rparr>)"
| "store D A_cost_currency v h = Inr (h\<lparr>cost_currency := Some v\<rparr>)"
| "store D A_price_date v h = Inr (h\<lparr>price_date := Some v\<rparr>)"
| "store D A_number v h =
     (case D v of Inl e \<Rightarrow> Inl e | Inr d \<Rightarrow> Inr (h\<lparr>number := Some d\<rparr>))"
| "store D A_cost_number v h =
     (case D v of Inl e \<Rightarrow> Inl e | Inr d \<Rightarrow> Inr (h\<lparr>cost_number := Some d\<rparr>))"
| "store D A_price_number v h =
     (case D v of Inl e \<Rightarrow> Inl e | Inr d \<Rightarrow> Inr (h\<lparr>price_number := Some d\<rparr>))"
| "store D A_book_value v h =
     (case D v of Inl e \<Rightarrow> Inl e | Inr d \<Rightarrow> Inr (h\<lparr>book_value := Some d\<rparr>))"
| "store D A_market_value v h =
     (case D v of Inl e \<Rightarrow> Inl e | Inr d \<Rightarrow> Inr (h\<lparr>market_value := Some d\<rparr>))"

text \<open>The inner loop over \<^verbatim>\<open>zip(attr_converters, line)\<close>, which stops at the shorter list.\<close>

fun load_line ::
  "(string \<Rightarrow> error + decimal) \<Rightarrow> attr list \<Rightarrow> string list \<Rightarrow> Holding \<Rightarrow> error + Holding" where
  "load_line D (a # attrs) (v # vs) value_dict =
     (case store D a v value_dict of
        Inl e \<Rightarrow> Inl e
      | Inr value_dict' \<Rightarrow> load_line D attrs vs value_dict')"
| "load_line D attrs vs value_dict = Inr value_dict"

text \<open>The loop over the header, which raises on the first name that is no key.\<close>

definition read_header :: "string list \<Rightarrow> error + attr list" where
  "read_header header =
     map_result
       (\<lambda>header_name.
          case column_dict header_name of
            None \<Rightarrow> Inl (IOError ''Invalid file contents for holdings'')
          | Some attr_converter \<Rightarrow> Inr attr_converter)
       header"

text \<open>
  \<^verbatim>\<open>load_from_csv\<close>, read to its end. The argument is the list of rows that
  \<^verbatim>\<open>csv.reader\<close> yields; \<^verbatim>\<open>next(reader)\<close> raises \<^verbatim>\<open>StopIteration\<close> when there is none.
\<close>

definition load_from_csv ::
  "(string \<Rightarrow> error + decimal) \<Rightarrow> string list list \<Rightarrow> error + Holding list" where
  "load_from_csv D reader =
     (case reader of
        [] \<Rightarrow> Inl StopIteration
      | header # lines \<Rightarrow>
          (case read_header header of
             Inl e \<Rightarrow> Inl e
           | Inr attr_converters \<Rightarrow>
               map_result (\<lambda>line. load_line D attr_converters line defaults_dict) lines))"

subsection \<open>The functions of other modules\<close>

text \<open>
  The functions of \<^verbatim>\<open>beancount.ops\<close> and \<^verbatim>\<open>beancount.core\<close> that the reports call are
  the fields of a record: \<open>'e\<close> is the type of the list of directives together with
  the options they were parsed with, \<open>'p\<close> the type of the price map.
  \<open>get_final_holdings\<close> stands for
  \<^verbatim>\<open>holdings.get_final_holdings(entries, (assets, liabilities), price_map)\<close>,
  \<open>get_tickers\<close> for
  \<^verbatim>\<open>getters.get_values_meta(getters.get_commodity_map(entries), 'ticker', default=...)\<close>,
  \<open>quantize\<close> for \<^verbatim>\<open>options_map['display_context'].quantize\<close>, \<open>str_decimal\<close> for the
  text that \<^verbatim>\<open>str.format\<close> gives for a \<^verbatim>\<open>Decimal\<close>, and \<open>account_root\<close> for
  \<^verbatim>\<open>account.root\<close>.
\<close>

record ('e, 'p) ledger =
  build_price_map :: "'e \<Rightarrow> 'p"
  get_final_holdings :: "'e \<Rightarrow> 'p \<Rightarrow> Holding list"
  convert_to_currency :: "'p \<Rightarrow> string \<Rightarrow> Holding list \<Rightarrow> Holding list"
  aggregate_holdings_by :: "Holding list \<Rightarrow> (Holding \<Rightarrow> string option) \<Rightarrow> Holding list"
  reduce_relative :: "Holding list \<Rightarrow> Holding list"
  account_root :: "nat \<Rightarrow> string option \<Rightarrow> string option"
  get_tickers :: "'e \<Rightarrow> tickers_map"
  quantize :: "decimal \<Rightarrow> string \<Rightarrow> decimal"
  str_decimal :: "decimal \<Rightarrow> string"

text \<open>The entries of \<^verbatim>\<open>options_map\<close> that the reports read.\<close>

record options_map =
  operating_currency :: "string list"
  title :: string

subsection \<open>\<^verbatim>\<open>get_assets_holdings\<close>\<close>

definition get_assets_holdings ::
  "('e, 'p) ledger \<Rightarrow> 'e \<Rightarrow> string option \<Rightarrow> Holding list \<times> 'p" where
  "get_assets_holdings L entries currency' =
     (let price_map = build_price_map L entries;
          holdings_list = get_final_holdings L entries price_map;
          holdings_list =
            (case currency' of
               None \<Rightarrow> holdings_list
             | Some c \<Rightarrow>
                 if c \<noteq> [] then convert_to_currency L price_map c holdings_list
                 else holdings_list)
      in (holdings_list, price_map))"

subsection \<open>\<^verbatim>\<open>report_holdings\<close> and \<^verbatim>\<open>HoldingsReport\<close>\<close>

text \<open>
  A field description is the name of a field, a header and a formatter; the two
  formatters are \<^verbatim>\<open>'{:,.2f}'.format\<close> and \<^verbatim>\<open>'{:,.2%}'.format\<close>.
\<close>

datatype formatter = Format_2f | Format_2percent

type_synonym field_desc = "attr \<times> string option \<times> formatter option"

definition FIELD_SPEC :: "field_desc list" where
  "FIELD_SPEC =
     [(A_account, None, None),
      (A_number, Some ''Units'', Some Format_2f),
      (A_currency, None, None),
      (A_cost_currency, None, None),
      (A_cost_number, Some ''Average Cost'', Some Format_2f),
      (A_price_number, Some ''Price'', Some Format_2f),
      (A_book_value, Some ''Book Value'', Some Format_2f),
      (A_market_value, Some ''Market Value'', Some Format_2f)]"

definition RELATIVE_FIELD_SPEC :: "field_desc list" where
  "RELATIVE_FIELD_SPEC =
     filter (\<lambda>field_desc.
               fst field_desc \<notin> set [A_account, A_number, A_book_value, A_market_value])
       FIELD_SPEC
     @ [(A_market_value, Some ''Frac Folio'', Some Format_2percent)]"

text \<open>
  \<^verbatim>\<open>table.create_table(holdings_list, field_spec)\<close> belongs to another module; a table
  is modelled by its two arguments.
\<close>

type_synonym holdings_table = "Holding list \<times> field_desc list"

text \<open>
  \<^verbatim>\<open>list.sort(key=sort_key, reverse=True)\<close>: descending, and stable (elements with
  equal keys keep their order).
\<close>

definition sort_reverse :: "('a \<Rightarrow> decimal) \<Rightarrow> 'a list \<Rightarrow> 'a list" where
  "sort_reverse k xs = rev (sort_key k (rev xs))"

definition report_holdings ::
  "('e, 'p) ledger \<Rightarrow> string option \<Rightarrow> bool \<Rightarrow> 'e \<Rightarrow> (Holding \<Rightarrow> string option) option
     \<Rightarrow> (Holding \<Rightarrow> decimal) option \<Rightarrow> holdings_table" where
  "report_holdings L currency' relative entries aggregation_key sort_key' =
     (let holdings_list = fst (get_assets_holdings L entries currency');
          holdings_list =
            (case aggregation_key of
               None \<Rightarrow> holdings_list
             | Some key \<Rightarrow> aggregate_holdings_by L holdings_list key);
          (holdings_list, field_spec) =
            (if relative then (reduce_relative L holdings_list, RELATIVE_FIELD_SPEC)
             else (holdings_list, FIELD_SPEC));
          holdings_list =
            (case sort_key' of
               None \<Rightarrow> holdings_list
             | Some key \<Rightarrow> sort_reverse key holdings_list)
      in (holdings_list, field_spec))"

text \<open>The arguments of the holdings report, as \<^verbatim>\<open>add_args\<close> declares them.\<close>

record holdings_args =
  args_currency :: "string option"
  args_relative :: bool
  args_groupby :: "string option"

text \<open>The dict \<^verbatim>\<open>HoldingsReport.aggregations\<close>: a grouping key and, for one entry, a sort key.\<close>

definition aggregations ::
  "('e, 'p) ledger \<Rightarrow> string
     \<rightharpoonup> (Holding \<Rightarrow> string option) \<times> (Holding \<Rightarrow> decimal) option" where
  "aggregations L =
     [''commodity'' \<mapsto> (\<lambda>holding. currency holding, None),
      ''account'' \<mapsto> (\<lambda>holding. account holding, None),
      ''root-account'' \<mapsto>
         (\<lambda>holding. account_root L 3 (account holding),
          Some (\<lambda>holding. case market_value holding of None \<Rightarrow> 0 | Some v \<Rightarrow> v)),
      ''currency'' \<mapsto> (\<lambda>holding. cost_currency holding, None)]"

text \<open>
  \<^verbatim>\<open>HoldingsReport.__init__\<close>: \<^verbatim>\<open>self.parser.error\<close> prints the message and leaves the
  program (\<^verbatim>\<open>SystemExit\<close>); the constructor of the base class stores the parsed
  arguments. The constructed report is its arguments.
\<close>

definition HoldingsReport_init :: "holdings_args \<Rightarrow> error + holdings_args" where
  "HoldingsReport_init args =
     (if args_relative args \<and> \<not> truthy (args_currency args)
      then Inl (ParserError ''--relative needs to have --currency set'')
      else Inr args)"

definition HoldingsReport_generate_table ::
  "('e, 'p) ledger \<Rightarrow> holdings_args \<Rightarrow> 'e \<Rightarrow> error + holdings_table" where
  "HoldingsReport_generate_table L self entries =
     (case args_groupby self of
        None \<Rightarrow>
          Inr (report_holdings L (args_currency self) (args_relative self) entries None None)
      | Some g \<Rightarrow>
          if g = [] then
            Inr (report_holdings L (args_currency self) (args_relative self) entries None None)
          else
            (case aggregations L g of
               None \<Rightarrow> Inl KeyError
             | Some (aggregation_key, sort_key') \<Rightarrow>
                 Inr (report_holdings L (args_currency self) (args_relative self) entries
                        (Some aggregation_key) sort_key')))"

text \<open>
  A caller constructs the report from the arguments and then asks it for its table;
  an exception of the constructor leaves no report to ask.
\<close>

definition holdings_report ::
  "('e, 'p) ledger \<Rightarrow> holdings_args \<Rightarrow> 'e \<Rightarrow> error + holdings_table" where
  "holdings_report L args entries =
     (case HoldingsReport_init args of
        Inl e \<Rightarrow> Inl e
      | Inr self \<Rightarrow> HoldingsReport_generate_table L self entries)"

subsection \<open>\<^verbatim>\<open>ExportPortfolioReport.render_ofx\<close>\<close>

text \<open>Lines of text: every line of a template ends with a newline.\<close>

definition join_lines :: "string list \<Rightarrow> string" where
  "join_lines ls = concat (map (\<lambda>l. l @ [newline]) ls)"

text \<open>\<^verbatim>\<open>'{}'.format(n)\<close> for a natural number.\<close>

fun str_nat :: "nat \<Rightarrow> string" where
  "str_nat n =
     (if n < 10 then [''0123456789'' ! n]
      else str_nat (n div 10) @ [''0123456789'' ! (n mod 10)])"

text \<open>\<^verbatim>\<open>'{}'.format(v)\<close> for a value that is \<^verbatim>\<open>None\<close> or a string.\<close>

definition str_format :: "string option \<Rightarrow> string" where
  "str_format v = (case v of None \<Rightarrow> ''None'' | Some s \<Rightarrow> s)"

text \<open>
  The templates, after \<^verbatim>\<open>textwrap.dedent\<close>; a template applied to its arguments is
  \<^verbatim>\<open>TEMPLATE.format(**locals())\<close>.
\<close>

definition PREFIX :: string where
  "PREFIX = join_lines
       [''OFXHEADER:100'',
        ''DATA:OFXSGML'',
        ''VERSION:102'',
        ''SECURITY:NONE'',
        ''ENCODING:USASCII'',
        ''CHARSET:1252'',
        ''COMPRESSION:NONE'',
        ''OLDFILEUID:NONE'',
        ''NEWFILEUID:NONE'',
        '''']"

definition TEMPLATE_format ::
  "string \<Rightarrow> string \<Rightarrow> string \<Rightarrow> string \<Rightarrow> string \<Rightarrow> string \<Rightarrow> string \<Rightarrow> string \<Rightarrow> string" where
  "TEMPLATE_format dtserver dtasof broker account_label dtstart dtend invtranlist seclist =
     join_lines
       ['''',
        ''<OFX>'',
        ''  <SIGNONMSGSRSV1>'',
        ''    <SONRS>'',
        ''      <STATUS>'',
        ''        <CODE>0'',
        ''        <SEVERITY>INFO'',
        ''      </STATUS>'',
        ''      <DTSERVER>'' @ dtserver,
        ''      <LANGUAGE>ENG'',
        ''    </SONRS>'',
        ''  </SIGNONMSGSRSV1>'',
        ''  <INVSTMTMSGSRSV1>'',
        ''    <INVSTMTTRNRS>'',
        ''      <TRNUID>1001'',
        ''      <STATUS>'',
        ''        <CODE>0'',
        ''        <SEVERITY>INFO'',
        ''      </STATUS>'',
        ''      <INVSTMTRS>'',
        ''        <DTASOF>'' @ dtasof,
        ''        <CURDEF>USD'',
        ''        <INVACCTFROM>'',
        ''          <BROKERID>'' @ broker,
        ''          <ACCTID>'' @ account_label,
        ''        </INVACCTFROM>'',
        ''        <INVTRANLIST>'',
        ''          <DTSTART>'' @ dtstart,
        ''          <DTEND>'' @ dtend,
        ''          '' @ invtranlist,
        ''        </INVTRANLIST>'',
        ''      </INVSTMTRS>'',
        ''    </INVSTMTTRNRS>'',
        ''  </INVSTMTMSGSRSV1>'',
        ''  <SECLISTMSGSRSV1>'',
        ''    <SECLIST>'',
        ''     '' @ seclist,
        ''    </SECLIST>'',
        ''  </SECLISTMSGSRSV1>'',
        ''</OFX>'']"

text \<open>The local variables that the template of a transaction reads.\<close>

record transaction =
  txntype :: string
  fitid :: nat
  dttrade :: string
  memo :: string
  uniqueid :: string
  units :: decimal
  unitprice :: decimal
  fee :: decimal
  total' :: decimal
  buytype :: string

definition TRANSACTION_format :: "(decimal \<Rightarrow> string) \<Rightarrow> transaction \<Rightarrow> string" where
  "TRANSACTION_format str_dec t =
     join_lines
       ['''',
        ''<'' @ txntype t @ ''>'',
        ''  <INVBUY>'',
        ''    <INVTRAN>'',
        ''      <FITID>'' @ str_nat (fitid t),
        ''      <DTTRADE>'' @ dttrade t,
        ''      <MEMO>'' @ memo t,
        ''    </INVTRAN>'',
        ''    <SECID>'',
        ''      <UNIQUEID>'' @ uniqueid t,
        ''      <UNIQUEIDTYPE>TICKER'',
        ''    </SECID>'',
        ''    <UNITS>'' @ str_dec (units t),
        ''    <UNITPRICE>'' @ str_dec (unitprice t),
        ''    <COMMISSION>'' @ str_dec (fee t),
        ''    <TOTAL>'' @ str_dec (total' t),
        ''    <SUBACCTSEC>CASH'',
        ''    <SUBACCTFUND>CASH'',
        ''  </INVBUY>'',
        ''  <BUYTYPE>'' @ buytype t,
        ''</'' @ txntype t @ ''>'']"

definition SECURITY_format :: "string \<Rightarrow> string \<Rightarrow> string \<Rightarrow> string \<Rightarrow> string" where
  "SECURITY_format infotype uniqueid' secname ticker =
     join_lines
       ['''',
        ''<'' @ infotype @ ''>'',
        ''  <SECINFO>'',
        ''    <SECID>'',
        ''      <UNIQUEID>'' @ uniqueid',
        ''      <UNIQUEIDTYPE>TICKER'',
        ''    </SECID>'',
        ''    <SECNAME>'' @ secname,
        ''    <TICKER>'' @ ticker,
        ''  </SECINFO>'',
        ''</'' @ infotype @ ''>'']"

definition CASH_EQUIVALENT_CURRENCY :: string where
  "CASH_EQUIVALENT_CURRENCY = ''VMMXX''"

definition CASH_EQUIVALENT_MFUND :: bool where
  "CASH_EQUIVALENT_MFUND = True"

text \<open>
  The state of the first loop of \<^verbatim>\<open>render_ofx\<close>. \<open>invtranlist_io\<close> holds the
  transactions written so far, each as the local variables its text is made from;
  \<^verbatim>\<open>getvalue()\<close> is the concatenation of their texts. The two sets are lists without
  repetition.
\<close>

record ofx_state =
  invtranlist_io :: "transaction list"
  commodities :: "(string \<times> string \<times> bool) list"
  skipped_holdings :: "Holding list"
  ignored_commodities :: "string list"
  index :: nat

definition ofx_initial :: ofx_state where
  "ofx_initial =
     \<lparr>invtranlist_io = [], commodities = [], skipped_holdings = [],
      ignored_commodities = [], index = 0\<rparr>"

text \<open>
  One iteration of the loop over \<^verbatim>\<open>enumerate(holdings_list)\<close>. The dict of tickers has
  the default \<^verbatim>\<open>undefined\<close> here, so the lookup \<^verbatim>\<open>tickers.get(holding.currency, None)\<close>
  gives \<^verbatim>\<open>None\<close> (no such key, which is the case of a currency \<^verbatim>\<open>None\<close> too),
  \<^verbatim>\<open>undefined\<close> (a commodity without ticker) or a string. The product
  \<^verbatim>\<open>units * unitprice\<close> raises \<^verbatim>\<open>TypeError\<close> when a factor is \<^verbatim>\<open>None\<close>.
\<close>

definition ofx_step ::
  "bool \<Rightarrow> string \<Rightarrow> tickers_map \<Rightarrow> nat \<Rightarrow> Holding \<Rightarrow> ofx_state \<Rightarrow> error + ofx_state" where
  "ofx_step promiscuous trade_date tickers i holding st0 =
     (let st = st0\<lparr>index := i\<rparr>;
          skip = (\<lambda>s. Inr (s\<lparr>skipped_holdings := skipped_holdings s @ [holding]\<rparr>))
      in
      case currency holding of
        None \<Rightarrow> skip st
      | Some c \<Rightarrow>
          (case tickers c of
             None \<Rightarrow> skip st
           | Some None \<Rightarrow>
               skip (st\<lparr>ignored_commodities := List.insert c (ignored_commodities st)\<rparr>)
           | Some (Some ticker) \<Rightarrow>
               if currency holding = cost_currency holding
                  \<or> cost_number holding = None
                  \<or> ticker = []
               then skip st
               else
                 (case (number holding, cost_number holding) of
                    (Some units', Some unitprice') \<Rightarrow>
                      Inr (st\<lparr>invtranlist_io := invtranlist_io st @
                                [\<lparr>txntype = (if is_mutual_fund ticker then ''BUYMF''
                                              else ''BUYSTOCK''),
                                  fitid = i + 1,
                                  dttrade = trade_date,
                                  memo = (if promiscuous then str_format (account holding)
                                          else []),
                                  uniqueid = ticker,
                                  units = units',
                                  unitprice = unitprice',
                                  fee = 0,
                                  total' = - (units' * unitprice' + 0),
                                  buytype = ''BUY''\<rparr>],
                              commodities :=
                                List.insert (c, ticker, is_mutual_fund ticker)
                                  (commodities st)\<rparr>)
                  | _ \<Rightarrow> Inl TypeError)))"

fun ofx_loop ::
  "bool \<Rightarrow> string \<Rightarrow> tickers_map \<Rightarrow> (nat \<times> Holding) list \<Rightarrow> ofx_state \<Rightarrow> error + ofx_state" where
  "ofx_loop promiscuous trade_date tickers [] st = Inr st"
| "ofx_loop promiscuous trade_date tickers ((i, holding) # rest) st =
     (case ofx_step promiscuous trade_date tickers i holding st of
        Inl e \<Rightarrow> Inl e
      | Inr st' \<Rightarrow> ofx_loop promiscuous trade_date tickers rest st')"

text \<open>
  The holdings that are not exported one by one, in the words of the specification:
  the holding is cash-like, or its cost is undefined, or its currency has no ticker
  (none at all, or the empty string).
\<close>

definition is_excluded :: "tickers_map \<Rightarrow> Holding \<Rightarrow> bool" where
  "is_excluded tickers h \<longleftrightarrow>
     currency h = cost_currency h
     \<or> cost_number h = None
     \<or> tickers_get tickers (currency h) = None
     \<or> tickers_get tickers (currency h) = Some []"

text \<open>
  The transaction of a holding that is exported on its own, in the words of the
  specification: a purchase of \<open>number\<close> units of the ticker at \<open>cost_number\<close> a unit,
  of a mutual fund or of a stock as the pattern of the ticker says, with no fee and
  the total \<open>-(number * cost_number + fee)\<close>; the memo is the account when the report
  is promiscuous. The identifier is the index of the holding plus one.
\<close>

definition is_buy_of ::
  "bool \<Rightarrow> string \<Rightarrow> tickers_map \<Rightarrow> nat \<times> Holding \<Rightarrow> transaction \<Rightarrow> bool" where
  "is_buy_of promiscuous trade_date tickers ih t \<longleftrightarrow>
     number (snd ih) = Some (units t)
     \<and> cost_number (snd ih) = Some (unitprice t)
     \<and> tickers_get tickers (currency (snd ih)) = Some (uniqueid t)
     \<and> txntype t = (if is_mutual_fund (uniqueid t) then ''BUYMF'' else ''BUYSTOCK'')
     \<and> fitid t = fst ih + 1
     \<and> dttrade t = trade_date
     \<and> memo t = (if promiscuous then str_format (account (snd ih)) else [])
     \<and> fee t = 0
     \<and> total' t = - (units t * unitprice t + fee t)
     \<and> buytype t = ''BUY''"

text \<open>
  \<^verbatim>\<open>sum(...)\<close> starts from 0 and adds the values in turn; adding \<^verbatim>\<open>None\<close> raises
  \<^verbatim>\<open>TypeError\<close>. The sum of no value is the integer 0, which the model does not
  tell from the \<^verbatim>\<open>Decimal\<close> zero.
\<close>

fun py_sum_from :: "decimal \<Rightarrow> decimal option list \<Rightarrow> error + decimal" where
  "py_sum_from acc [] = Inr acc"
| "py_sum_from acc (None # vs) = Inl TypeError"
| "py_sum_from acc (Some v # vs) = py_sum_from (acc + v) vs"

definition py_sum :: "decimal option list \<Rightarrow> error + decimal" where
  "py_sum vs = py_sum_from 0 vs"

text \<open>
  Division raises on a zero divisor: \<^verbatim>\<open>ZeroDivisionError\<close> for integers,
  \<^verbatim>\<open>decimal.DivisionByZero\<close> or \<^verbatim>\<open>decimal.InvalidOperation\<close> (for 0/0) for decimals
  under the default context; the model has one error for the three.
\<close>

definition py_div :: "decimal \<Rightarrow> decimal \<Rightarrow> error + decimal" where
  "py_div a b = (if b = 0 then Inl ZeroDivisionError else Inr (a / b))"

text \<open>
  The block under \<^verbatim>\<open>if options_map['operating_currency']:\<close>, which writes the
  transaction of the cash equivalent. \<open>convert\<close> is
  \<^verbatim>\<open>holdings.convert_to_currency\<close> applied to the price map.
\<close>

definition cash_equivalent ::
  "(string \<Rightarrow> Holding list \<Rightarrow> Holding list) \<Rightarrow> (decimal \<Rightarrow> string \<Rightarrow> decimal) \<Rightarrow> string
     \<Rightarrow> string list \<Rightarrow> ofx_state \<Rightarrow> error + ofx_state" where
  "cash_equivalent convert quantize' trade_date operating st =
     (case operating of
        [] \<Rightarrow> Inr st
      | cash_currency # _ \<Rightarrow>
          (let converted_holdings = convert cash_currency (skipped_holdings st);
               included_holdings =
                 filter (\<lambda>holding. cost_currency holding = Some cash_currency)
                   converted_holdings
           in
           case py_sum (map book_value included_holdings) of
             Inl e \<Rightarrow> Inl e
           | Inr book_value' \<Rightarrow>
               (case py_sum (map market_value included_holdings) of
                  Inl e \<Rightarrow> Inl e
                | Inr market_value' \<Rightarrow>
                    (let units' = quantize' market_value' cash_currency in
                     case py_div book_value' market_value' of
                       Inl e \<Rightarrow> Inl e
                     | Inr ratio \<Rightarrow>
                         (let unitprice' = quantize' ratio cash_currency in
                          Inr (st\<lparr>invtranlist_io := invtranlist_io st @
                                    [\<lparr>txntype = (if CASH_EQUIVALENT_MFUND then ''BUYMF''
                                                  else ''BUYSTOCK''),
                                      fitid = index st + 1,
                                      dttrade = trade_date,
                                      memo = [],
                                      uniqueid = CASH_EQUIVALENT_CURRENCY,
                                      units = units',
                                      unitprice = unitprice',
                                      fee = 0,
                                      total' = - (units' * unitprice' + 0),
                                      buytype = ''BUY''\<rparr>],
                                  commodities :=
                                    List.insert
                                      (CASH_EQUIVALENT_CURRENCY, CASH_EQUIVALENT_CURRENCY,
                                       False)
                                      (commodities st)\<rparr>))))))"

text \<open>
  The transactions and the securities of the document: the two loops and the block
  between them. \<^verbatim>\<open>sorted(commodities)\<close> orders the triples lexicographically, strings
  by the codes of their characters.
\<close>

definition ofx_transactions ::
  "('e, 'p) ledger \<Rightarrow> options_map \<Rightarrow> bool \<Rightarrow> string \<Rightarrow> 'e \<Rightarrow> error + ofx_state" where
  "ofx_transactions L options promiscuous trade_date entries =
     (case get_assets_holdings L entries None of
        (holdings_list, price_map) \<Rightarrow>
          (case ofx_loop promiscuous trade_date (get_tickers L entries)
                  (enumerate 0 holdings_list) ofx_initial of
             Inl e \<Rightarrow> Inl e
           | Inr st \<Rightarrow>
               cash_equivalent (convert_to_currency L price_map) (quantize L) trade_date
                 (operating_currency options) st))"

definition seclist_of :: "(string \<times> string \<times> bool) list \<Rightarrow> string" where
  "seclist_of commodities' =
     concat (map (\<lambda>(currency', ticker, mutual_fund).
                    SECURITY_format (if mutual_fund then ''MFINFO'' else ''STOCKINFO'')
                      currency' currency' ticker)
               (sort commodities'))"

text \<open>
  \<^verbatim>\<open>str.splitlines\<close>, \<^verbatim>\<open>str.lstrip\<close> and \<^verbatim>\<open>str.strip\<close> on characters with codes below
  256: the line boundaries and the white space of Python in that range.
\<close>

definition is_linebreak :: "char \<Rightarrow> bool" where
  "is_linebreak c \<longleftrightarrow>
     c \<in> set [CHR 0x0A, CHR 0x0B, CHR 0x0C, CHR 0x0D, CHR 0x1C, CHR 0x1D, CHR 0x1E, CHR 0x85]"

definition is_space :: "char \<Rightarrow> bool" where
  "is_space c \<longleftrightarrow>
     c \<in> set [CHR 0x09, CHR 0x0A, CHR 0x0B, CHR 0x0C, CHR 0x0D, CHR 0x1C, CHR 0x1D, CHR 0x1E,
              CHR 0x1F, CHR 0x20, CHR 0x85, CHR 0xA0]"

text \<open>
  \<open>splitlines_from line s\<close>: the lines of \<open>s\<close>, where \<open>line\<close> is the beginning, read
  already and in reverse, of the first of them. A carriage return followed by a
  newline is one boundary; a text that ends with a boundary has no empty last line.
\<close>

fun splitlines_from :: "string \<Rightarrow> string \<Rightarrow> string list" where
  "splitlines_from line [] = (if line = [] then [] else [rev line])"
| "splitlines_from line (c # s) =
     (if c = CHR 0x0D \<and> s \<noteq> [] \<and> hd s = CHR 0x0A then rev line # splitlines_from [] (tl s)
      else if is_linebreak c then rev line # splitlines_from [] s
      else splitlines_from (c # line) s)"

definition splitlines :: "string \<Rightarrow> string list" where
  "splitlines s = splitlines_from [] s"

definition lstrip :: "string \<Rightarrow> string" where
  "lstrip s = dropWhile is_space s"

definition strip :: "string \<Rightarrow> string" where
  "strip s = rev (dropWhile is_space (rev (dropWhile is_space s)))"

text \<open>\<^verbatim>\<open>sep.join(lines)\<close>.\<close>

fun join :: "string \<Rightarrow> string list \<Rightarrow> string" where
  "join sep [] = []"
| "join sep [l] = l"
| "join sep (l # ls) = l @ sep @ join sep ls"

text \<open>
  The text that \<^verbatim>\<open>render_ofx\<close> writes to the file. \<open>morning\<close> and \<open>trade_date\<close> are
  \<^verbatim>\<open>render_ofx_date(morning)\<close> and \<^verbatim>\<open>render_ofx_date(trade_date)\<close>, which depend on the
  time of the call.
\<close>

definition ofx_document ::
  "('e, 'p) ledger \<Rightarrow> options_map \<Rightarrow> bool \<Rightarrow> string \<Rightarrow> string \<Rightarrow> 'e \<Rightarrow> error + string" where
  "ofx_document L options promiscuous morning trade_date entries =
     (case ofx_transactions L options promiscuous trade_date entries of
        Inl e \<Rightarrow> Inl e
      | Inr st \<Rightarrow>
          (let invtranlist =
                 concat (map (TRANSACTION_format (str_decimal L)) (invtranlist_io st));
               seclist = seclist_of (commodities st);
               broker = ''Beancount'';
               account_label = (if promiscuous then title options else []);
               contents =
                 TEMPLATE_format morning morning broker account_label morning morning
                   invtranlist seclist;
               stripped_contents =
                 join [newline]
                   (map lstrip (filter (\<lambda>line. strip line \<noteq> []) (splitlines contents)))
           in Inr (PREFIX @ stripped_contents)))"

text \<open>
  \<^verbatim>\<open>render_ofx\<close>: the text written to the file and the exception raised, if any. With
  \<^verbatim>\<open>--verbose\<close> the method reads \<^verbatim>\<open>sys.stderr\<close> after the write, and the module does not
  import \<^verbatim>\<open>sys\<close>.
\<close>

definition render_ofx ::
  "('e, 'p) ledger \<Rightarrow> options_map \<Rightarrow> bool \<Rightarrow> bool \<Rightarrow> string \<Rightarrow> string \<Rightarrow> 'e
     \<Rightarrow> string \<times> error option" where
  "render_ofx L options promiscuous verbose morning trade_date entries =
     (case ofx_document L options promiscuous morning trade_date entries of
        Inl e \<Rightarrow> ([], Some e)
      | Inr document \<Rightarrow>
          (document, if verbose then Some (NameError ''sys'') else None))"

subsection \<open>\<^verbatim>\<open>NetWorthReport.generate_table\<close>\<close>

text \<open>
  The loop over the operating currencies. The variable \<^verbatim>\<open>holdings_list\<close> is read at
  the head of the body and assigned in it, so it is an argument of the loop, next
  to the list \<^verbatim>\<open>net_worths\<close>.
\<close>

fun net_worth_loop ::
  "(string \<Rightarrow> Holding list \<Rightarrow> Holding list)
     \<Rightarrow> (Holding list \<Rightarrow> (Holding \<Rightarrow> string option) \<Rightarrow> Holding list)
     \<Rightarrow> string list \<Rightarrow> Holding list \<Rightarrow> (string \<times> decimal option) list
     \<Rightarrow> (string \<times> decimal option) list" where
  "net_worth_loop convert aggregate [] holdings_list net_worths = net_worths"
| "net_worth_loop convert aggregate (currency' # rest) holdings_list net_worths =
     (let currency_holdings_list = convert currency' holdings_list in
      if currency_holdings_list = [] then
        net_worth_loop convert aggregate rest holdings_list net_worths
      else
        (let holdings_list = aggregate currency_holdings_list (\<lambda>holding. cost_currency holding);
             holdings_list =
               filter (\<lambda>holding. truthy (currency holding) \<and> truthy (cost_currency holding))
                 holdings_list
         in
         case holdings_list of
           [] \<Rightarrow> net_worth_loop convert aggregate rest holdings_list net_worths
         | first # _ \<Rightarrow>
             net_worth_loop convert aggregate rest holdings_list
               (net_worths @ [(currency', market_value first)])))"

text \<open>
  \<^verbatim>\<open>NetWorthReport.generate_table\<close>; the table made by \<^verbatim>\<open>table.create_table\<close> is
  modelled by its rows.
\<close>

definition NetWorthReport_generate_table ::
  "('e, 'p) ledger \<Rightarrow> options_map \<Rightarrow> 'e \<Rightarrow> (string \<times> decimal option) list" where
  "NetWorthReport_generate_table L options entries =
     (case get_assets_holdings L entries None of
        (holdings_list, price_map) \<Rightarrow>
          net_worth_loop (convert_to_currency L price_map) (aggregate_holdings_by L)
            (operating_currency options) holdings_list [])"

subsection \<open>The collaborators, from the specification\<close>

text \<open>
  Modelled from the spec: \<^verbatim>\<open>holdings.convert_to_currency\<close> of \<^verbatim>\<open>beancount.ops.holdings\<close>,
  which is not among the sources (section 4.1). A holding in the target currency is
  unchanged; with a rate from its cost currency to the target, the cost currency is
  replaced and the four valuation fields are scaled; without a rate the holding is
  unchanged. The price map gives the rate from one currency to another, if any.
\<close>

type_synonym price_map = "string \<Rightarrow> string \<Rightarrow> decimal option"

definition spec_convert_holding :: "price_map \<Rightarrow> string \<Rightarrow> Holding \<Rightarrow> Holding" where
  "spec_convert_holding rates target h =
     (case cost_currency h of
        None \<Rightarrow> h
      | Some c \<Rightarrow>
          if c = target then h
          else
            (case rates c target of
               None \<Rightarrow> h
             | Some rate \<Rightarrow>
                 h\<lparr>cost_currency := Some target,
                   cost_number := map_option (\<lambda>v. v * rate) (cost_number h),
                   price_number := map_option (\<lambda>v. v * rate) (price_number h),
                   book_value := map_option (\<lambda>v. v * rate) (book_value h),
                   market_value := map_option (\<lambda>v. v * rate) (market_value h)\<rparr>))"

definition spec_convert_to_currency :: "price_map \<Rightarrow> string \<Rightarrow> Holding list \<Rightarrow> Holding list" where
  "spec_convert_to_currency rates target hs = map (spec_convert_holding rates target) hs"

text \<open>
  Modelled from the spec: \<^verbatim>\<open>holdings.aggregate_holdings_by\<close> of \<^verbatim>\<open>beancount.ops.holdings\<close>,
  which is not among the sources (section 4.2). The holdings are grouped by their
  key, the groups in the order in which their keys are first seen. The book value and
  the market value of a group are the sums over its members; when the members share
  their currency and their cost currency, both are kept and the numbers are summed,
  otherwise the two currencies and the number are cleared. Cost and price are the
  values divided by the number when that is defined and not zero. A sum with an
  undefined term is undefined. The specification does not say what the account and
  the price date of a group are: here they are kept when all members agree.
\<close>

fun add_to_groups :: "('a \<Rightarrow> 'k) \<Rightarrow> 'a \<Rightarrow> ('k \<times> 'a list) list \<Rightarrow> ('k \<times> 'a list) list" where
  "add_to_groups key x [] = [(key x, [x])]"
| "add_to_groups key x ((k, members) # groups) =
     (if k = key x then (k, members @ [x]) # groups
      else (k, members) # add_to_groups key x groups)"

definition group_by :: "('a \<Rightarrow> 'k) \<Rightarrow> 'a list \<Rightarrow> ('k \<times> 'a list) list" where
  "group_by key xs = foldl (\<lambda>groups x. add_to_groups key x groups) [] xs"

fun sum_defined :: "decimal option list \<Rightarrow> decimal option" where
  "sum_defined [] = Some 0"
| "sum_defined (None # vs) = None"
| "sum_defined (Some v # vs) = map_option (\<lambda>s. v + s) (sum_defined vs)"

definition shared :: "('a \<Rightarrow> 'b option) \<Rightarrow> 'a \<Rightarrow> 'a list \<Rightarrow> 'b option" where
  "shared field first rest = (if list_all (\<lambda>h. field h = field first) rest then field first else None)"

definition per_unit :: "decimal option \<Rightarrow> decimal option \<Rightarrow> decimal option" where
  "per_unit value' number' =
     (case (value', number') of
        (Some v, Some n) \<Rightarrow> if n = 0 then None else Some (v / n)
      | _ \<Rightarrow> None)"

fun spec_aggregate_group :: "Holding list \<Rightarrow> Holding list" where
  "spec_aggregate_group [] = []"
| "spec_aggregate_group (first # rest) =
     (let homogeneous =
            list_all (\<lambda>h. currency h = currency first \<and> cost_currency h = cost_currency first)
              rest;
          number' = (if homogeneous then sum_defined (map number (first # rest)) else None);
          book_value' = sum_defined (map book_value (first # rest));
          market_value' = sum_defined (map market_value (first # rest))
      in [\<lparr>account = shared account first rest,
           number = number',
           currency = (if homogeneous then currency first else None),
           cost_currency = (if homogeneous then cost_currency first else None),
           cost_number = per_unit book_value' number',
           price_number = per_unit market_value' number',
           book_value = book_value',
           market_value = market_value',
           price_date = shared price_date first rest\<rparr>])"

definition spec_aggregate_holdings_by ::
  "Holding list \<Rightarrow> (Holding \<Rightarrow> string option) \<Rightarrow> Holding list" where
  "spec_aggregate_holdings_by hs key =
     concat (map (\<lambda>(k, members). spec_aggregate_group members) (group_by key hs))"

text \<open>
  Modelled from the spec: \<^verbatim>\<open>holdings.reduce_relative\<close> of \<^verbatim>\<open>beancount.ops.holdings\<close>,
  which is not among the sources (section 4.3). The market value of a holding becomes
  its fraction of the total of the defined market values, undefined when the total is
  zero; book value and number are cleared.
\<close>

definition spec_reduce_relative :: "Holding list \<Rightarrow> Holding list" where
  "spec_reduce_relative hs =
     (let total = sum_list (map (\<lambda>h. case market_value h of None \<Rightarrow> 0 | Some v \<Rightarrow> v) hs)
      in map (\<lambda>h. h\<lparr>market_value :=
                       (if total = 0 then None
                        else map_option (\<lambda>v. v / total) (market_value h)),
                     book_value := None,
                     number := None\<rparr>) hs)"

text \<open>
  A ledger for the examples: the entries are the final holdings themselves, the
  tickers and the rates are given. Where a display context has no precision for a
  currency, \<^verbatim>\<open>quantize\<close> returns the number as it is. The printer of decimals prints
  the integer part (the examples have whole numbers), and the identity stands for
  \<^verbatim>\<open>account.root\<close>, which no example calls.
\<close>

definition example_str_decimal :: "decimal \<Rightarrow> string" where
  "example_str_decimal d =
     (if d < 0 then CHR ''-'' # str_nat (nat \<lfloor>- d\<rfloor>) else str_nat (nat \<lfloor>d\<rfloor>))"

definition example_ledger :: "tickers_map \<Rightarrow> price_map \<Rightarrow> (Holding list, price_map) ledger" where
  "example_ledger tickers rates =
     \<lparr>build_price_map = (\<lambda>entries. rates),
      get_final_holdings = (\<lambda>entries price_map. entries),
      convert_to_currency = spec_convert_to_currency,
      aggregate_holdings_by = spec_aggregate_holdings_by,
      reduce_relative = spec_reduce_relative,
      account_root = (\<lambda>n name. name),
      get_tickers = (\<lambda>entries. tickers),
      quantize = (\<lambda>number' currency'. number'),
      str_decimal = example_str_decimal\<rparr>"

definition example_tickers :: tickers_map where
  "example_tickers =
     [''AAPL'' \<mapsto> Some ''NASDAQ:AAPL'',
      ''VFINX'' \<mapsto> Some ''MUTF:VFINX'',
      ''GLD'' \<mapsto> Some ''NYSEARCA:GLD'',
      ''USD'' \<mapsto> Some ''Cash'',
      ''HOUSE'' \<mapsto> None]"

definition example_rates :: price_map where
  "example_rates base target =
     (if base = ''EUR'' \<and> target = ''USD'' then Some 2
      else if base = ''USD'' \<and> target = ''CAD'' then Some (5 / 4)
      else None)"

definition no_rates :: price_map where
  "no_rates base target = None"

definition holding_aapl :: Holding where
  "holding_aapl =
     \<lparr>account = Some ''Assets:Broker'', number = Some 10, currency = Some ''AAPL'',
      cost_currency = Some ''USD'', cost_number = Some 100, price_number = Some 110,
      book_value = Some 1000, market_value = Some 1100, price_date = None\<rparr>"

definition holding_vfinx :: Holding where
  "holding_vfinx =
     \<lparr>account = Some ''Assets:Broker'', number = Some 20, currency = Some ''VFINX'',
      cost_currency = Some ''USD'', cost_number = Some 50, price_number = Some 60,
      book_value = Some 1000, market_value = Some 1200, price_date = None\<rparr>"

definition holding_usd :: Holding where
  "holding_usd =
     \<lparr>account = Some ''Assets:Bank'', number = Some 500, currency = Some ''USD'',
      cost_currency = Some ''USD'', cost_number = None, price_number = None,
      book_value = Some 500, market_value = Some 500, price_date = None\<rparr>"

definition holding_debt :: Holding where
  "holding_debt =
     \<lparr>account = Some ''Liabilities:Card'', number = Some (- 500), currency = Some ''USD'',
      cost_currency = Some ''USD'', cost_number = None, price_number = None,
      book_value = Some (- 500), market_value = Some (- 500), price_date = None\<rparr>"

definition holding_house :: Holding where
  "holding_house =
     \<lparr>account = Some ''Assets:Home'', number = Some 1, currency = Some ''HOUSE'',
      cost_currency = Some ''USD'', cost_number = Some 2000, price_number = Some 2500,
      book_value = Some 2000, market_value = Some 2500, price_date = None\<rparr>"

definition holding_gld_us :: Holding where
  "holding_gld_us =
     \<lparr>account = Some ''Assets:US:Broker'', number = Some 1, currency = Some ''GLD'',
      cost_currency = Some ''USD'', cost_number = Some 100, price_number = Some 100,
      book_value = Some 100, market_value = Some 100, price_date = None\<rparr>"

definition holding_gld_eu :: Holding where
  "holding_gld_eu =
     \<lparr>account = Some ''Assets:EU:Broker'', number = Some 2, currency = Some ''GLD'',
      cost_currency = Some ''EUR'', cost_number = Some 50, price_number = Some 50,
      book_value = Some 100, market_value = Some 100, price_date = None\<rparr>"

text \<open>
  Modelled from the spec: \<^verbatim>\<open>D\<close> of \<^verbatim>\<open>beancount.core.amount\<close>, the decimal parser, which
  is not among the sources; for the examples, on strings of digits only.
\<close>

fun digits_value :: "nat \<Rightarrow> string \<Rightarrow> nat option" where
  "digits_value acc [] = Some acc"
| "digits_value acc (c # cs) =
     (case map_of (zip ''0123456789'' [0, 1, 2, 3, 4, 5, 6, 7, 8, 9]) c of
        None \<Rightarrow> None
      | Some d \<Rightarrow> digits_value (10 * acc + d) cs)"

definition example_D :: "string \<Rightarrow> error + decimal" where
  "example_D s =
     (case digits_value 0 s of None \<Rightarrow> Inl ValueError | Some n \<Rightarrow> Inr (of_nat n))"

section \<open>Properties\<close>

subsection \<open>The mutual-fund pattern\<close>

lemma re_match_dotstar_colon:
  "re_match [DotStar, Lit CHR '':''] s
     \<longleftrightarrow> CHR '':'' \<in> set (takeWhile (\<lambda>c. c \<noteq> newline) s)"
  by (induction s) auto

lemma re_match_Lit:
  "re_match (Lit c # p) s \<longleftrightarrow> (\<exists>s'. s = c # s' \<and> re_match p s')"
  by (cases s) auto

lemma is_mutual_fund_iff:
  "is_mutual_fund t \<longleftrightarrow>
     (\<exists>rest. t = ''MUTF'' @ rest \<and> CHR '':'' \<in> set (takeWhile (\<lambda>c. c \<noteq> newline) rest))"
  unfolding is_mutual_fund_def MUTF_pattern_def
  by (simp only: re_match_Lit re_match_dotstar_colon) auto

text \<open>
  Claim C4, as stated, fails: the pattern \<^verbatim>\<open>MUTF.*:\<close> also accepts a ticker such as
  \<^verbatim>\<open>MUTF_CA:TDB900\<close>, which does not start with \<^verbatim>\<open>MUTF:\<close>.
\<close>

theorem is_mutual_fund_prefix_counterexample:
  "\<not> (is_mutual_fund ''MUTF_CA:TDB900'' \<longleftrightarrow> prefix ''MUTF:'' ''MUTF_CA:TDB900'')"
  by (simp add: is_mutual_fund_def MUTF_pattern_def)

text \<open>
  Claim C4, amended: \<open>is_mutual_fund\<close> holds exactly for the tickers that start with
  \<^verbatim>\<open>MUTF\<close> and have a colon after it with no newline between the two. Every ticker
  that starts with \<^verbatim>\<open>MUTF:\<close> is a mutual fund, \<^verbatim>\<open>MUTF:ABCDX\<close> is one and \<^verbatim>\<open>ABCD\<close> is
  none.
\<close>

theorem is_mutual_fund_pattern:
  "(is_mutual_fund t \<longleftrightarrow>
      (\<exists>rest. t = ''MUTF'' @ rest \<and>
         CHR '':'' \<in> set (takeWhile (\<lambda>c. c \<noteq> newline) rest)))
   \<and> (prefix ''MUTF:'' t \<longrightarrow> is_mutual_fund t)
   \<and> is_mutual_fund ''MUTF:ABCDX''
   \<and> \<not> is_mutual_fund ''ABCD''"
proof -
  have "is_mutual_fund t" if "prefix ''MUTF:'' t"
  proof -
    from that obtain r where "t = ''MUTF'' @ (CHR '':'' # r)"
      by (auto simp: prefix_def)
    then show ?thesis
      by (simp add: is_mutual_fund_def MUTF_pattern_def)
  qed
  moreover have "is_mutual_fund ''MUTF:ABCDX''" "\<not> is_mutual_fund ''ABCD''"
    by (simp_all add: is_mutual_fund_def MUTF_pattern_def)
  ultimately show ?thesis
    using is_mutual_fund_iff by blast
qed

theorem is_mutual_fund_pattern_witness:
  "prefix ''MUTF:'' ''MUTF:VFINX'' \<and> is_mutual_fund ''MUTF:VFINX''
   \<and> (\<exists>rest. ''MUTF:VFINX'' = ''MUTF'' @ rest \<and>
         CHR '':'' \<in> set (takeWhile (\<lambda>c. c \<noteq> newline) rest))"
proof -
  have p: "prefix ''MUTF:'' ''MUTF:VFINX''"
    by simp
  with is_mutual_fund_pattern [of "''MUTF:VFINX''"] show ?thesis
    by blast
qed

subsection \<open>The classifier of \<^verbatim>\<open>export_holdings\<close>\<close>

lemma lower_cash_not_empty: "lower t = ''cash'' \<Longrightarrow> t \<noteq> []"
  by (auto simp: lower_def)

lemma classes_exclusive:
  "(is_exportable tickers h \<and> \<not> is_cashlike tickers h \<and> \<not> is_ignored tickers h)
   \<or> (\<not> is_exportable tickers h \<and> is_cashlike tickers h \<and> \<not> is_ignored tickers h)
   \<or> (\<not> is_exportable tickers h \<and> \<not> is_cashlike tickers h \<and> is_ignored tickers h)"
  by (cases "tickers_get tickers (currency h)")
     (auto simp: is_exportable_def is_cashlike_def is_ignored_def dest: lower_cash_not_empty)

lemma classify_loop_filter:
  "classify_loop tickers hs (e, c, i) =
     (e @ filter (is_exportable tickers) hs,
      c @ filter (is_cashlike tickers) hs,
      i @ filter (is_ignored tickers) hs)"
proof (induction hs arbitrary: e c i)
  case Nil
  show ?case by simp
next
  case (Cons h hs)
  show ?case
  proof (cases "tickers_get tickers (currency h)")
    case None
    then show ?thesis
      by (simp add: Cons.IH truthy_def is_exportable_def is_cashlike_def is_ignored_def)
  next
    case (Some t)
    then show ?thesis
      using lower_cash_not_empty [of t]
      by (auto simp: Cons.IH truthy_def is_exportable_def is_cashlike_def is_ignored_def)
  qed
qed

lemma map_result_total:
  "(\<And>x. x \<in> set xs \<Longrightarrow> \<exists>y. f x = Inr y)
     \<Longrightarrow> \<exists>ys. map_result f xs = Inr ys \<and> length ys = length xs"
proof (induction xs)
  case Nil
  show ?case by simp
next
  case (Cons x xs)
  from Cons.prems obtain y where y: "f x = Inr y"
    by auto
  from Cons obtain ys where "map_result f xs = Inr ys" "length ys = length xs"
    by auto
  with y show ?case
    by simp
qed

lemma export_entry_total:
  "is_exportable tickers h \<Longrightarrow> \<exists>y. export_entry tickers promiscuous h = Inr y"
  by (auto simp: is_exportable_def tickers_get_def export_entry_def
           split: option.splits)

lemma three_way_partition:
  "(\<And>x. (P x \<and> \<not> Q x \<and> \<not> R x) \<or> (\<not> P x \<and> Q x \<and> \<not> R x) \<or> (\<not> P x \<and> \<not> Q x \<and> R x))
     \<Longrightarrow> mset (filter P xs) + mset (filter Q xs) + mset (filter R xs) = mset xs"
proof (induction xs)
  case Nil
  show ?case by simp
next
  case (Cons x xs)
  then have IH: "mset (filter P xs) + mset (filter Q xs) + mset (filter R xs) = mset xs"
    by blast
  from Cons.prems [of x] show ?case
    using IH by (elim disjE conjE) simp_all
qed

text \<open>
  Claim C7: \<open>export_holdings\<close> returns, and its three buckets are the exportable
  holdings (a ticker is present and is not \<^verbatim>\<open>cash\<close>, whatever the case of its
  letters), the cashlike ones (the ticker is \<^verbatim>\<open>cash\<close>) and the ignored ones (no
  ticker), each in the order of the input. Every holding is in exactly one class, and
  the three buckets together hold every input holding exactly once. One entry is
  exported for each exportable holding.
\<close>

theorem export_holdings_classification:
  "\<exists>exported.
     export_holdings tickers promiscuous hs =
       Inr (exported,
            filter (is_exportable tickers) hs,
            filter (is_cashlike tickers) hs,
            filter (is_ignored tickers) hs)
     \<and> length exported = length (filter (is_exportable tickers) hs)
     \<and> mset (filter (is_exportable tickers) hs) + mset (filter (is_cashlike tickers) hs)
         + mset (filter (is_ignored tickers) hs) = mset hs
     \<and> (\<forall>h. (is_exportable tickers h \<and> \<not> is_cashlike tickers h \<and> \<not> is_ignored tickers h)
          \<or> (\<not> is_exportable tickers h \<and> is_cashlike tickers h \<and> \<not> is_ignored tickers h)
          \<or> (\<not> is_exportable tickers h \<and> \<not> is_cashlike tickers h \<and> is_ignored tickers h))"
proof -
  obtain exported where
    "map_result (export_entry tickers promiscuous) (filter (is_exportable tickers) hs)
       = Inr exported"
    "length exported = length (filter (is_exportable tickers) hs)"
    using map_result_total [of "filter (is_exportable tickers) hs"
        "export_entry tickers promiscuous"] export_entry_total
    by auto
  moreover have "mset (filter (is_exportable tickers) hs)
      + mset (filter (is_cashlike tickers) hs)
      + mset (filter (is_ignored tickers) hs) = mset hs"
    by (rule three_way_partition) (rule classes_exclusive)
  ultimately show ?thesis
    using classes_exclusive [of tickers]
    by (simp add: export_holdings_def classify_loop_filter)
qed

theorem export_holdings_classification_witness:
  "\<exists>exported.
     export_holdings example_tickers False [holding_aapl, holding_usd, holding_house]
       = Inr (exported, [holding_aapl], [holding_usd], [holding_house])
     \<and> length exported = 1"
proof -
  have e: "filter (is_exportable example_tickers) [holding_aapl, holding_usd, holding_house]
      = [holding_aapl]"
    by (simp add: is_exportable_def tickers_get_def example_tickers_def holding_aapl_def
        holding_usd_def holding_house_def lower_def lower_char_def)
  have c: "filter (is_cashlike example_tickers) [holding_aapl, holding_usd, holding_house]
      = [holding_usd]"
    by (simp add: is_cashlike_def tickers_get_def example_tickers_def holding_aapl_def
        holding_usd_def holding_house_def lower_def lower_char_def)
  have i: "filter (is_ignored example_tickers) [holding_aapl, holding_usd, holding_house]
      = [holding_house]"
    by (simp add: is_ignored_def tickers_get_def example_tickers_def holding_aapl_def
        holding_usd_def holding_house_def)
  from export_holdings_classification
    [of example_tickers False "[holding_aapl, holding_usd, holding_house]"]
  obtain exported where
    "export_holdings example_tickers False [holding_aapl, holding_usd, holding_house]
       = Inr (exported,
           filter (is_exportable example_tickers) [holding_aapl, holding_usd, holding_house],
           filter (is_cashlike example_tickers) [holding_aapl, holding_usd, holding_house],
           filter (is_ignored example_tickers) [holding_aapl, holding_usd, holding_house])"
    "length exported
       = length (filter (is_exportable example_tickers)
           [holding_aapl, holding_usd, holding_house])"
    by blast
  then show ?thesis
    unfolding e c i by simp
qed

subsection \<open>The header of the CSV file\<close>

lemma column_dict_dom:
  "column_dict name = None \<longleftrightarrow>
     name \<notin> {''Account'', ''Units'', ''Currency'', ''Cost Currency'', ''Average Cost'',
              ''Price'', ''Book Value'', ''Market Value'', ''Price Date''}"
proof -
  have "column_dict name = None \<longleftrightarrow> name \<notin> fst ` set column_spec"
    unfolding column_dict_def by (rule map_of_eq_None_iff)
  also have "fst ` set column_spec =
      {''Account'', ''Units'', ''Currency'', ''Cost Currency'', ''Average Cost'',
       ''Price'', ''Book Value'', ''Market Value'', ''Price Date''}"
    unfolding column_spec_def by simp
  finally show ?thesis .
qed

lemma read_header_unknown:
  "\<exists>name\<in>set header. column_dict name = None
     \<Longrightarrow> read_header header = Inl (IOError ''Invalid file contents for holdings'')"
  unfolding read_header_def
proof (induction header)
  case Nil
  then show ?case by simp
next
  case (Cons name header)
  show ?case
  proof (cases "column_dict name")
    case None
    then show ?thesis by simp
  next
    case (Some a)
    with Cons.prems have "\<exists>name\<in>set header. column_dict name = None"
      by auto
    from Cons.IH [OF this] Some show ?thesis
      by simp
  qed
qed

lemma read_header_known:
  "\<forall>name\<in>set header. column_dict name \<noteq> None
     \<Longrightarrow> read_header header = Inr (map (\<lambda>name. the (column_dict name)) header)"
  unfolding read_header_def
  by (induction header) (auto split: option.splits sum.splits)

lemma store_total:
  "(a \<in> {A_number, A_cost_number, A_price_number, A_book_value, A_market_value}
       \<Longrightarrow> \<exists>d. D v = Inr d)
     \<Longrightarrow> \<exists>h'. store D a v h = Inr h'"
  by (cases a) auto

lemma column_dict_numeric:
  assumes "column_dict name = Some a"
    and "a \<in> {A_number, A_cost_number, A_price_number, A_book_value, A_market_value}"
  shows "name \<in> {''Units'', ''Average Cost'', ''Price'', ''Book Value'', ''Market Value''}"
proof -
  from assms(1) have "(name, a) \<in> set column_spec"
    unfolding column_dict_def by (rule map_of_SomeD)
  with assms(2) show ?thesis
    unfolding column_spec_def by auto
qed

lemma load_line_total:
  "\<forall>name\<in>set header. column_dict name \<noteq> None
     \<Longrightarrow> \<forall>(name, v)\<in>set (zip header line).
           name \<in> {''Units'', ''Average Cost'', ''Price'', ''Book Value'', ''Market Value''}
             \<longrightarrow> (\<exists>d. D v = Inr d)
     \<Longrightarrow> \<exists>h'. load_line D (map (\<lambda>name. the (column_dict name)) header) line h = Inr h'"
proof (induction header arbitrary: line h)
  case Nil
  show ?case by simp
next
  case (Cons name header)
  show ?case
  proof (cases line)
    case Nil
    then show ?thesis by simp
  next
    case line: (Cons v vs)
    from Cons.prems(1) obtain a where a: "column_dict name = Some a"
      by auto
    have "\<exists>d. D v = Inr d"
      if "a \<in> {A_number, A_cost_number, A_price_number, A_book_value, A_market_value}"
    proof -
      from column_dict_numeric [OF a that]
      have "name \<in> {''Units'', ''Average Cost'', ''Price'', ''Book Value'', ''Market Value''}" .
      moreover have "(name, v) \<in> set (zip (name # header) line)"
        by (simp add: line)
      ultimately show ?thesis
        using Cons.prems(2) by blast
    qed
    then obtain h' where h': "store D a v h = Inr h'"
      using store_total [of a D v h] by blast
    have 1: "\<forall>name\<in>set header. column_dict name \<noteq> None"
      using Cons.prems(1) by simp
    have 2: "\<forall>(name, v)\<in>set (zip header vs).
           name \<in> {''Units'', ''Average Cost'', ''Price'', ''Book Value'', ''Market Value''}
             \<longrightarrow> (\<exists>d. D v = Inr d)"
      using Cons.prems(2) by (simp add: line)
    from Cons.IH [OF 1 2, of h'] a h' line show ?thesis
      by simp
  qed
qed

text \<open>
  Claim C3, as stated, fails: a header with the nine recognized names and one more
  name is refused, no column is ignored.
\<close>

theorem load_from_csv_extra_column_counterexample:
  "load_from_csv example_D
     [[''Account'', ''Units'', ''Currency'', ''Cost Currency'', ''Average Cost'', ''Price'',
       ''Book Value'', ''Market Value'', ''Price Date'', ''Notes''],
      [''Assets:Broker'', ''10'', ''AAPL'', ''USD'', ''100'', ''110'', ''1000'', ''1100'', '''',
       ''bought in 2014'']]
   = Inl (IOError ''Invalid file contents for holdings'')"
  by (simp add: load_from_csv_def read_header_def column_dict_def column_spec_def)

text \<open>
  Claim C3, amended: the loader raises the format error whenever the header has a name
  that is not in the recognized set, at whatever position. When every name of the
  header is recognized and \<^verbatim>\<open>D\<close> parses every cell of a decimal column, the file loads
  and gives one holding for each row after the header.
\<close>

theorem load_from_csv_header:
  "((\<exists>name\<in>set header.
        name \<notin> {''Account'', ''Units'', ''Currency'', ''Cost Currency'', ''Average Cost'',
                 ''Price'', ''Book Value'', ''Market Value'', ''Price Date''})
      \<longrightarrow> load_from_csv D (header # lines)
            = Inl (IOError ''Invalid file contents for holdings''))
   \<and> ((\<forall>name\<in>set header.
          name \<in> {''Account'', ''Units'', ''Currency'', ''Cost Currency'', ''Average Cost'',
                   ''Price'', ''Book Value'', ''Market Value'', ''Price Date''})
        \<and> (\<forall>line\<in>set lines. \<forall>(name, v)\<in>set (zip header line).
              name \<in> {''Units'', ''Average Cost'', ''Price'', ''Book Value'', ''Market Value''}
                \<longrightarrow> (\<exists>d. D v = Inr d))
      \<longrightarrow> (\<exists>hs. load_from_csv D (header # lines) = Inr hs \<and> length hs = length lines))"
proof (intro conjI impI)
  assume "\<exists>name\<in>set header.
        name \<notin> {''Account'', ''Units'', ''Currency'', ''Cost Currency'', ''Average Cost'',
                 ''Price'', ''Book Value'', ''Market Value'', ''Price Date''}"
  then have "\<exists>name\<in>set header. column_dict name = None"
    unfolding column_dict_dom .
  then have "read_header header = Inl (IOError ''Invalid file contents for holdings'')"
    by (rule read_header_unknown)
  then show "load_from_csv D (header # lines) = Inl (IOError ''Invalid file contents for holdings'')"
    by (simp add: load_from_csv_def)
next
  assume a: "(\<forall>name\<in>set header.
          name \<in> {''Account'', ''Units'', ''Currency'', ''Cost Currency'', ''Average Cost'',
                   ''Price'', ''Book Value'', ''Market Value'', ''Price Date''})
        \<and> (\<forall>line\<in>set lines. \<forall>(name, v)\<in>set (zip header line).
              name \<in> {''Units'', ''Average Cost'', ''Price'', ''Book Value'', ''Market Value''}
                \<longrightarrow> (\<exists>d. D v = Inr d))"
  have known: "\<forall>name\<in>set header. column_dict name \<noteq> None"
    unfolding column_dict_dom not_not using a by (rule conjunct1)
  have cells: "\<forall>line\<in>set lines. \<forall>(name, v)\<in>set (zip header line).
              name \<in> {''Units'', ''Average Cost'', ''Price'', ''Book Value'', ''Market Value''}
                \<longrightarrow> (\<exists>d. D v = Inr d)"
    using a by (rule conjunct2)
  have "\<exists>hs. map_result
           (\<lambda>line. load_line D (map (\<lambda>name. the (column_dict name)) header) line defaults_dict)
           lines = Inr hs \<and> length hs = length lines"
  proof (rule map_result_total)
    fix line assume "line \<in> set lines"
    with cells have "\<forall>(name, v)\<in>set (zip header line).
           name \<in> {''Units'', ''Average Cost'', ''Price'', ''Book Value'', ''Market Value''}
             \<longrightarrow> (\<exists>d. D v = Inr d)"
      by (rule bspec)
    from load_line_total [OF known this]
    show "\<exists>y. load_line D (map (\<lambda>name. the (column_dict name)) header) line defaults_dict = Inr y" .
  qed
  moreover have "read_header header = Inr (map (\<lambda>name. the (column_dict name)) header)"
    using known by (rule read_header_known)
  ultimately show "\<exists>hs. load_from_csv D (header # lines) = Inr hs \<and> length hs = length lines"
    by (simp add: load_from_csv_def)
qed

theorem load_from_csv_header_witness:
  "load_from_csv example_D [[''Account'', ''Notes''], [''Assets:Bank'', ''salary'']]
     = Inl (IOError ''Invalid file contents for holdings'')
   \<and> (\<exists>hs. load_from_csv example_D [[''Account'', ''Units''], [''Assets:Bank'', ''500'']] = Inr hs
         \<and> length hs = 1)"
proof -
  have d: "example_D ''500'' = Inr 500"
    by (simp add: example_D_def)
  show ?thesis
    using load_from_csv_header [of "[''Account'', ''Notes'']" example_D "[[''Assets:Bank'', ''salary'']]"]
      load_from_csv_header [of "[''Account'', ''Units'']" example_D "[[''Assets:Bank'', ''500'']]"]
    by (simp add: d)
qed

subsection \<open>The constructor of the holdings report\<close>

text \<open>
  Claim C8: a relative report without a currency (\<^verbatim>\<open>None\<close> or the empty string) is
  refused by the constructor, with the error of the argument parser; whatever the
  ledger and the entries, the caller gets this error and no table.
\<close>

theorem relative_needs_currency:
  "args_relative args \<Longrightarrow> \<not> truthy (args_currency args)
     \<Longrightarrow> HoldingsReport_init args
           = Inl (ParserError ''--relative needs to have --currency set'')
         \<and> holdings_report L args entries
           = Inl (ParserError ''--relative needs to have --currency set'')"
  by (simp add: HoldingsReport_init_def holdings_report_def)

theorem relative_needs_currency_witness:
  "args_relative \<lparr>args_currency = None, args_relative = True, args_groupby = None\<rparr>
   \<and> \<not> truthy (args_currency \<lparr>args_currency = None, args_relative = True, args_groupby = None\<rparr>)
   \<and> holdings_report (example_ledger example_tickers no_rates)
       \<lparr>args_currency = None, args_relative = True, args_groupby = None\<rparr>
       [holding_aapl, holding_usd]
     = Inl (ParserError ''--relative needs to have --currency set'')"
proof -
  have r: "args_relative \<lparr>args_currency = None, args_relative = True, args_groupby = None\<rparr>"
    by simp
  have c: "\<not> truthy (args_currency \<lparr>args_currency = None, args_relative = True, args_groupby = None\<rparr>)"
    by (simp add: truthy_def)
  from relative_needs_currency [OF r c, of "example_ledger example_tickers no_rates" "[holding_aapl, holding_usd]"] r c
  show ?thesis
    by simp
qed

subsection \<open>The loop of \<^verbatim>\<open>render_ofx\<close> over the holdings\<close>

lemma not_excluded_ticker:
  assumes "\<not> is_excluded tickers h"
  shows "\<exists>c t p. currency h = Some c \<and> tickers c = Some (Some t) \<and> t \<noteq> []
           \<and> cost_number h = Some p \<and> cost_currency h \<noteq> Some c"
proof -
  from assms have 1: "currency h \<noteq> cost_currency h" and 2: "cost_number h \<noteq> None"
    and 3: "tickers_get tickers (currency h) \<noteq> None"
    and 4: "tickers_get tickers (currency h) \<noteq> Some []"
    by (simp_all add: is_excluded_def)
  from 3 obtain c where c: "currency h = Some c"
    by (cases "currency h") (simp_all add: tickers_get_def)
  with 3 obtain v where v: "tickers c = Some v"
    by (cases "tickers c") (simp_all add: tickers_get_def)
  with 3 c obtain t where t: "v = Some t"
    by (cases v) (simp_all add: tickers_get_def)
  from 4 c v t have "t \<noteq> []"
    by (simp add: tickers_get_def)
  moreover from 2 obtain p where "cost_number h = Some p"
    by auto
  moreover from 1 c have "cost_currency h \<noteq> Some c"
    by auto
  ultimately show ?thesis
    using c v t by blast
qed


lemma ofx_step_excluded:
  assumes "is_excluded tickers h"
  shows "\<exists>st'. ofx_step promiscuous trade_date tickers i h st = Inr st'
           \<and> index st' = i
           \<and> skipped_holdings st' = skipped_holdings st @ [h]
           \<and> invtranlist_io st' = invtranlist_io st
           \<and> commodities st' = commodities st"
proof (cases "currency h")
  case None
  then show ?thesis
    by (simp add: ofx_step_def)
next
  case c: (Some c)
  show ?thesis
  proof (cases "tickers c")
    case None
    with c show ?thesis
      by (simp add: ofx_step_def)
  next
    case v: (Some v)
    show ?thesis
    proof (cases v)
      case None
      with c v show ?thesis
        by (simp add: ofx_step_def)
    next
      case (Some t)
      with c v assms have "currency h = cost_currency h \<or> cost_number h = None \<or> t = []"
        by (simp add: is_excluded_def tickers_get_def)
      with c v Some show ?thesis
        by (simp add: ofx_step_def)
    qed
  qed
qed

lemma ofx_step_exported:
  assumes "\<not> is_excluded tickers h" and "number h = Some n"
  shows "\<exists>c t p st'. currency h = Some c \<and> tickers c = Some (Some t) \<and> cost_number h = Some p
           \<and> ofx_step promiscuous trade_date tickers i h st = Inr st'
           \<and> index st' = i
           \<and> skipped_holdings st' = skipped_holdings st
           \<and> invtranlist_io st' = invtranlist_io st @
                [\<lparr>txntype = (if is_mutual_fund t then ''BUYMF'' else ''BUYSTOCK''),
                  fitid = i + 1, dttrade = trade_date,
                  memo = (if promiscuous then str_format (account h) else []),
                  uniqueid = t, units = n, unitprice = p, fee = 0,
                  total' = - (n * p + 0), buytype = ''BUY''\<rparr>]
           \<and> commodities st' = List.insert (c, t, is_mutual_fund t) (commodities st)"
proof -
  from not_excluded_ticker [OF assms(1)] obtain c t p where
    f: "currency h = Some c" "tickers c = Some (Some t)" "t \<noteq> []" "cost_number h = Some p"
      "cost_currency h \<noteq> Some c"
    by blast
  then have "Some c \<noteq> cost_currency h"
    by auto
  with f assms(2) show ?thesis
    by (simp add: ofx_step_def)
qed

lemma ofx_step_no_number:
  assumes "\<not> is_excluded tickers h" and "number h = None"
  shows "ofx_step promiscuous trade_date tickers i h st = Inl TypeError"
proof -
  from not_excluded_ticker [OF assms(1)] obtain c t p where
    f: "currency h = Some c" "tickers c = Some (Some t)" "t \<noteq> []" "cost_number h = Some p"
      "cost_currency h \<noteq> Some c"
    by blast
  then have "Some c \<noteq> cost_currency h"
    by auto
  with f assms(2) show ?thesis
    by (simp add: ofx_step_def)
qed

lemma ofx_loop_result:
  "ofx_loop promiscuous trade_date tickers ihs st0 = Inr st
     \<Longrightarrow> skipped_holdings st
           = skipped_holdings st0 @ map snd (filter (\<lambda>ih. is_excluded tickers (snd ih)) ihs)
         \<and> (\<exists>buys. invtranlist_io st = invtranlist_io st0 @ buys
               \<and> list_all2 (is_buy_of promiscuous trade_date tickers)
                    (filter (\<lambda>ih. \<not> is_excluded tickers (snd ih)) ihs) buys)
         \<and> index st = (if ihs = [] then index st0 else fst (last ihs))"
proof (induction ihs arbitrary: st0)
  case Nil
  then show ?case by simp
next
  case (Cons ih ihs)
  obtain i h where ih: "ih = (i, h)"
    by (cases ih)
  from Cons.prems ih obtain st1 where
    step: "ofx_step promiscuous trade_date tickers i h st0 = Inr st1"
    and rest: "ofx_loop promiscuous trade_date tickers ihs st1 = Inr st"
    by (auto split: sum.splits)
  note IH = Cons.IH [OF rest]
  show ?case
  proof (cases "is_excluded tickers h")
    case True
    from ofx_step_excluded [OF True, of promiscuous trade_date i st0] step
    have "index st1 = i" "skipped_holdings st1 = skipped_holdings st0 @ [h]"
      "invtranlist_io st1 = invtranlist_io st0"
      by auto
    with IH True ih show ?thesis
      by auto
  next
    case False
    have "number h \<noteq> None"
      using ofx_step_no_number [OF False, of promiscuous trade_date i st0] step
      by (cases "number h") auto
    then obtain n where n: "number h = Some n"
      by auto
    from ofx_step_exported [OF False n, of promiscuous trade_date i st0] step
    obtain c t p where
      f: "currency h = Some c" "tickers c = Some (Some t)" "cost_number h = Some p"
        "index st1 = i" "skipped_holdings st1 = skipped_holdings st0"
        "invtranlist_io st1 = invtranlist_io st0 @
                [\<lparr>txntype = (if is_mutual_fund t then ''BUYMF'' else ''BUYSTOCK''),
                  fitid = i + 1, dttrade = trade_date,
                  memo = (if promiscuous then str_format (account h) else []),
                  uniqueid = t, units = n, unitprice = p, fee = 0,
                  total' = - (n * p + 0), buytype = ''BUY''\<rparr>]"
      by auto
    have b: "is_buy_of promiscuous trade_date tickers (i, h)
        \<lparr>txntype = (if is_mutual_fund t then ''BUYMF'' else ''BUYSTOCK''),
                  fitid = i + 1, dttrade = trade_date,
                  memo = (if promiscuous then str_format (account h) else []),
                  uniqueid = t, units = n, unitprice = p, fee = 0,
                  total' = - (n * p + 0), buytype = ''BUY''\<rparr>"
      using f(1-3) n by (simp add: is_buy_of_def tickers_get_def)
    from IH obtain buys where
      buys: "invtranlist_io st = invtranlist_io st1 @ buys"
        "list_all2 (is_buy_of promiscuous trade_date tickers)
           (filter (\<lambda>ih. \<not> is_excluded tickers (snd ih)) ihs) buys"
      by blast
    from IH have sk: "skipped_holdings st
           = skipped_holdings st1 @ map snd (filter (\<lambda>ih. is_excluded tickers (snd ih)) ihs)"
      and ix: "index st = (if ihs = [] then index st1 else fst (last ihs))"
      by blast+
    from sk f(5) False ih have "skipped_holdings st
           = skipped_holdings st0 @ map snd (filter (\<lambda>ih. is_excluded tickers (snd ih)) (ih # ihs))"
      by simp
    moreover from ix f(4) ih have "index st = (if ih # ihs = [] then index st0 else fst (last (ih # ihs)))"
      by simp
    moreover from buys f(6) b False ih have "\<exists>buys. invtranlist_io st = invtranlist_io st0 @ buys
               \<and> list_all2 (is_buy_of promiscuous trade_date tickers)
                    (filter (\<lambda>ih. \<not> is_excluded tickers (snd ih)) (ih # ihs)) buys"
      by simp
    ultimately show ?thesis
      by blast
  qed
qed

lemma ofx_loop_total:
  "\<forall>ih\<in>set ihs. \<not> is_excluded tickers (snd ih) \<longrightarrow> number (snd ih) \<noteq> None
     \<Longrightarrow> \<exists>st. ofx_loop promiscuous trade_date tickers ihs st0 = Inr st"
proof (induction ihs arbitrary: st0)
  case Nil
  show ?case by simp
next
  case (Cons ih ihs)
  obtain i h where ih: "ih = (i, h)"
    by (cases ih)
  have "\<exists>st1. ofx_step promiscuous trade_date tickers i h st0 = Inr st1"
  proof (cases "is_excluded tickers h")
    case True
    from ofx_step_excluded [OF True, of promiscuous trade_date i st0] show ?thesis
      by blast
  next
    case False
    with Cons.prems ih obtain n where "number h = Some n"
      by auto
    from ofx_step_exported [OF False this, of promiscuous trade_date i st0] show ?thesis
      by blast
  qed
  then obtain st1 where st1: "ofx_step promiscuous trade_date tickers i h st0 = Inr st1"
    by blast
  from Cons.prems have "\<forall>ih\<in>set ihs. \<not> is_excluded tickers (snd ih) \<longrightarrow> number (snd ih) \<noteq> None"
    by simp
  from Cons.IH [OF this, of st1] st1 ih show ?case
    by simp
qed

lemma ofx_loop_no_number:
  "\<exists>ih\<in>set ihs. \<not> is_excluded tickers (snd ih) \<and> number (snd ih) = None
     \<Longrightarrow> ofx_loop promiscuous trade_date tickers ihs st0 = Inl TypeError"
proof (induction ihs arbitrary: st0)
  case Nil
  then show ?case by simp
next
  case (Cons ih ihs)
  obtain i h where ih: "ih = (i, h)"
    by (cases ih)
  show ?case
  proof (cases "\<not> is_excluded tickers h \<and> number h = None")
    case True
    then show ?thesis
      using ofx_step_no_number [of tickers h promiscuous trade_date i st0] ih by simp
  next
    case False
    with Cons.prems ih
    have r: "\<exists>ih\<in>set ihs. \<not> is_excluded tickers (snd ih) \<and> number (snd ih) = None"
      by auto
    show ?thesis
    proof (cases "ofx_step promiscuous trade_date tickers i h st0")
      case (Inl e)
      have "e = TypeError"
      proof (cases "is_excluded tickers h")
        case True
        from ofx_step_excluded [OF True, of promiscuous trade_date i st0] Inl show ?thesis
          by auto
      next
        case ne: False
        with False obtain n where "number h = Some n"
          by auto
        from ofx_step_exported [OF ne this, of promiscuous trade_date i st0] Inl show ?thesis
          by auto
      qed
      with Inl ih show ?thesis by simp
    next
      case (Inr st1)
      with Cons.IH [OF r, of st1] ih show ?thesis by simp
    qed
  qed
qed

lemma filter_snd_enumerate:
  "map snd (filter (\<lambda>ih. P (snd ih)) (enumerate n xs)) = filter P xs"
  by (induction xs arbitrary: n) simp_all

lemma cash_equivalent_none:
  "cash_equivalent convert quantize' trade_date [] st = Inr st"
  by (simp add: cash_equivalent_def)

lemma cash_equivalent_some:
  assumes "cash_equivalent convert quantize' trade_date (cash_currency # others) st = Inr st'"
  shows "\<exists>t. invtranlist_io st' = invtranlist_io st @ [t]
           \<and> fitid t = index st + 1
           \<and> uniqueid t = CASH_EQUIVALENT_CURRENCY
           \<and> txntype t = ''BUYMF''
           \<and> commodities st'
               = List.insert (CASH_EQUIVALENT_CURRENCY, CASH_EQUIVALENT_CURRENCY, False)
                   (commodities st)"
proof -
  let ?inc = "filter (\<lambda>holding. cost_currency holding = Some cash_currency)
                (convert cash_currency (skipped_holdings st))"
  from assms obtain b where b: "py_sum (map book_value ?inc) = Inr b"
    by (cases "py_sum (map book_value ?inc)") (simp_all add: cash_equivalent_def)
  from assms b obtain m where m: "py_sum (map market_value ?inc) = Inr m"
    by (cases "py_sum (map market_value ?inc)") (simp_all add: cash_equivalent_def)
  from assms b m obtain r where r: "py_div b m = Inr r"
    by (cases "py_div b m") (simp_all add: cash_equivalent_def)
  from assms b m r have "st' = st\<lparr>invtranlist_io := invtranlist_io st @
                    [\<lparr>txntype = ''BUYMF'', fitid = index st + 1,
                        dttrade = trade_date, memo = [],
                        uniqueid = CASH_EQUIVALENT_CURRENCY,
                        units = quantize' m cash_currency,
                        unitprice = quantize' r cash_currency, fee = 0,
                        total' = - (quantize' m cash_currency * quantize' r cash_currency + 0),
                        buytype = ''BUY''\<rparr>],
                    commodities :=
                      List.insert
                       (CASH_EQUIVALENT_CURRENCY, CASH_EQUIVALENT_CURRENCY, False)
                       (commodities st)\<rparr>"
    by (simp add: cash_equivalent_def CASH_EQUIVALENT_MFUND_def Let_def)
  then show ?thesis
    by simp
qed

lemma get_assets_holdings_None:
  "get_assets_holdings L entries None
     = (get_final_holdings L entries (build_price_map L entries), build_price_map L entries)"
  by (simp add: get_assets_holdings_def Let_def)

lemma ofx_transactions_Inr:
  assumes "ofx_transactions L options promiscuous trade_date entries = Inr st"
  shows "\<exists>st1.
      ofx_loop promiscuous trade_date (get_tickers L entries)
        (enumerate 0 (fst (get_assets_holdings L entries None))) ofx_initial = Inr st1
      \<and> cash_equivalent (convert_to_currency L (snd (get_assets_holdings L entries None)))
          (quantize L) trade_date (operating_currency options) st1 = Inr st"
proof (cases "ofx_loop promiscuous trade_date (get_tickers L entries)
        (enumerate 0 (fst (get_assets_holdings L entries None))) ofx_initial")
  case (Inl e)
  with assms show ?thesis
    by (simp add: ofx_transactions_def get_assets_holdings_None)
next
  case (Inr st1)
  with assms show ?thesis
    by (simp add: ofx_transactions_def get_assets_holdings_None)
qed

lemma list_all2_filter_last:
  assumes "list_all2 R (filter P xs) ys" and "xs \<noteq> []" and "P (last xs)"
  shows "\<exists>us y. ys = us @ [y] \<and> R (last xs) y"
proof -
  from assms(2) have xs: "xs = butlast xs @ [last xs]"
    by simp
  have "filter P xs = filter P (butlast xs) @ [last xs]"
    using assms(3) by (subst xs) simp
  with assms(1) have "list_all2 R (filter P (butlast xs) @ [last xs]) ys"
    by simp
  then obtain us vs where "ys = us @ vs" "list_all2 R [last xs] vs"
    by (auto simp: list_all2_append1)
  then show ?thesis
    by (cases vs) (auto simp: list_all2_Cons1)
qed

lemma last_enumerate:
  "xs \<noteq> [] \<Longrightarrow> last (enumerate n xs) = (n + length xs - 1, last xs)"
  by (simp add: enumerate_eq_zip last_zip)

lemma example_transactions:
  "ofx_transactions (example_ledger example_tickers no_rates)
         \<lparr>operating_currency = [''USD''], title = ''Example''\<rparr> False ''20141102090000.000''
         [holding_usd, holding_aapl]
       = Inr \<lparr>invtranlist_io =
               [\<lparr>txntype = ''BUYSTOCK'', fitid = 2, dttrade = ''20141102090000.000'',
                 memo = [], uniqueid = ''NASDAQ:AAPL'', units = 10, unitprice = 100, fee = 0,
                 total' = - 1000, buytype = ''BUY''\<rparr>,
                \<lparr>txntype = ''BUYMF'', fitid = 2, dttrade = ''20141102090000.000'',
                 memo = [], uniqueid = ''VMMXX'', units = 500, unitprice = 1, fee = 0,
                 total' = - 500, buytype = ''BUY''\<rparr>],
              commodities = [(''VMMXX'', ''VMMXX'', False), (''AAPL'', ''NASDAQ:AAPL'', False)],
              skipped_holdings = [holding_usd],
              ignored_commodities = [],
              index = 1\<rparr>"
  by (simp add: ofx_transactions_def get_assets_holdings_def example_ledger_def
      example_tickers_def enumerate_eq_zip ofx_step_def ofx_initial_def cash_equivalent_def
      spec_convert_to_currency_def spec_convert_holding_def py_sum_def py_div_def
      holding_usd_def holding_aapl_def is_mutual_fund_def MUTF_pattern_def
      CASH_EQUIVALENT_MFUND_def CASH_EQUIVALENT_CURRENCY_def)

lemma example_excluded:
  "\<not> is_excluded example_tickers holding_aapl"
  "\<not> is_excluded example_tickers holding_vfinx"
  "is_excluded example_tickers holding_usd"
  "is_excluded example_tickers holding_debt"
  "is_excluded example_tickers holding_house"
  by (simp_all add: is_excluded_def tickers_get_def example_tickers_def holding_aapl_def
      holding_vfinx_def holding_usd_def holding_debt_def holding_house_def)

text \<open>
  Claim C6: the loop of \<^verbatim>\<open>render_ofx\<close> skips exactly the holdings that are cash-like
  (currency equal to cost currency), or have no cost, or whose currency has no ticker
  (none, or the empty string), in the order of the input; the other holdings give one
  transaction each, in their order, with the number as units, the cost as unit price,
  the ticker as identifier, no fee and the total \<open>-(units * unitprice + fee)\<close>. The
  loop returns when each exported holding has its number, as the holdings of a
  ledger have (the product raises on \<^verbatim>\<open>None\<close>).
\<close>

theorem ofx_individual_export:
  assumes "\<forall>h\<in>set hs. \<not> is_excluded tickers h \<longrightarrow> number h \<noteq> None"
  shows "\<exists>st. ofx_loop promiscuous trade_date tickers (enumerate 0 hs) ofx_initial = Inr st
     \<and> skipped_holdings st = filter (is_excluded tickers) hs
     \<and> list_all2
         (\<lambda>h t. number h = Some (units t)
            \<and> cost_number h = Some (unitprice t)
            \<and> tickers_get tickers (currency h) = Some (uniqueid t)
            \<and> txntype t = (if is_mutual_fund (uniqueid t) then ''BUYMF'' else ''BUYSTOCK'')
            \<and> fee t = 0
            \<and> total' t = - (units t * unitprice t + fee t)
            \<and> buytype t = ''BUY'')
         (filter (\<lambda>h. \<not> is_excluded tickers h) hs) (invtranlist_io st)"
proof -
  have "\<forall>ih\<in>set (enumerate 0 hs). \<not> is_excluded tickers (snd ih) \<longrightarrow> number (snd ih) \<noteq> None"
  proof
    fix ih assume "ih \<in> set (enumerate 0 hs)"
    then have "snd ih \<in> set hs"
      by (metis map_snd_enumerate imageI set_map)
    with assms show "\<not> is_excluded tickers (snd ih) \<longrightarrow> number (snd ih) \<noteq> None"
      by (rule bspec)
  qed
  from ofx_loop_total [OF this] obtain st where
    st: "ofx_loop promiscuous trade_date tickers (enumerate 0 hs) ofx_initial = Inr st"
    by blast
  from ofx_loop_result [OF st] obtain buys where
    sk: "skipped_holdings st = skipped_holdings ofx_initial
           @ map snd (filter (\<lambda>ih. is_excluded tickers (snd ih)) (enumerate 0 hs))"
    and io: "invtranlist_io st = invtranlist_io ofx_initial @ buys"
    and buys: "list_all2 (is_buy_of promiscuous trade_date tickers)
        (filter (\<lambda>ih. \<not> is_excluded tickers (snd ih)) (enumerate 0 hs)) buys"
    by blast
  have sk': "skipped_holdings st = filter (is_excluded tickers) hs"
    unfolding sk by (simp add: ofx_initial_def filter_snd_enumerate)
  have io': "invtranlist_io st = buys"
    unfolding io by (simp add: ofx_initial_def)
  have "list_all2
         (\<lambda>ih t. number (snd ih) = Some (units t)
            \<and> cost_number (snd ih) = Some (unitprice t)
            \<and> tickers_get tickers (currency (snd ih)) = Some (uniqueid t)
            \<and> txntype t = (if is_mutual_fund (uniqueid t) then ''BUYMF'' else ''BUYSTOCK'')
            \<and> fee t = 0
            \<and> total' t = - (units t * unitprice t + fee t)
            \<and> buytype t = ''BUY'')
         (filter (\<lambda>ih. \<not> is_excluded tickers (snd ih)) (enumerate 0 hs)) buys"
    by (rule list_all2_mono [OF buys]) (simp only: is_buy_of_def)
  then have "list_all2
         (\<lambda>h t. number h = Some (units t)
            \<and> cost_number h = Some (unitprice t)
            \<and> tickers_get tickers (currency h) = Some (uniqueid t)
            \<and> txntype t = (if is_mutual_fund (uniqueid t) then ''BUYMF'' else ''BUYSTOCK'')
            \<and> fee t = 0
            \<and> total' t = - (units t * unitprice t + fee t)
            \<and> buytype t = ''BUY'')
         (map snd (filter (\<lambda>ih. \<not> is_excluded tickers (snd ih)) (enumerate 0 hs))) buys"
    by (simp only: list_all2_map1)
  then have la: "list_all2
         (\<lambda>h t. number h = Some (units t)
            \<and> cost_number h = Some (unitprice t)
            \<and> tickers_get tickers (currency h) = Some (uniqueid t)
            \<and> txntype t = (if is_mutual_fund (uniqueid t) then ''BUYMF'' else ''BUYSTOCK'')
            \<and> fee t = 0
            \<and> total' t = - (units t * unitprice t + fee t)
            \<and> buytype t = ''BUY'')
         (filter (\<lambda>h. \<not> is_excluded tickers h) hs) (invtranlist_io st)"
    using filter_snd_enumerate [of "\<lambda>h. \<not> is_excluded tickers h" 0 hs]
    by (simp only: io')
  show ?thesis
    by (rule exI [of _ st]) (intro conjI st sk' la)
qed

theorem ofx_individual_export_witness:
  "number holding_aapl = Some 10 \<and> number holding_vfinx = Some 20
   \<and> (\<exists>st. ofx_loop False ''20141102090000.000'' example_tickers
          (enumerate 0 [holding_aapl, holding_usd, holding_house, holding_vfinx]) ofx_initial
          = Inr st
        \<and> skipped_holdings st = [holding_usd, holding_house]
        \<and> length (invtranlist_io st) = 2)"
proof -
  have h: "\<forall>h\<in>set [holding_aapl, holding_usd, holding_house, holding_vfinx].
      \<not> is_excluded example_tickers h \<longrightarrow> number h \<noteq> None"
    by (simp add: holding_aapl_def holding_usd_def holding_house_def holding_vfinx_def)
  from ofx_individual_export [OF h, of False "''20141102090000.000''"] obtain st where
    st: "ofx_loop False ''20141102090000.000'' example_tickers
          (enumerate 0 [holding_aapl, holding_usd, holding_house, holding_vfinx]) ofx_initial
          = Inr st"
      "skipped_holdings st = filter (is_excluded example_tickers)
          [holding_aapl, holding_usd, holding_house, holding_vfinx]"
      "length (filter (\<lambda>h. \<not> is_excluded example_tickers h)
          [holding_aapl, holding_usd, holding_house, holding_vfinx])
        = length (invtranlist_io st)"
    by (blast dest: list_all2_lengthD)
  from st(2,3) have "skipped_holdings st = [holding_usd, holding_house]"
    "length (invtranlist_io st) = 2"
    by (simp_all add: example_excluded)
  moreover have "number holding_aapl = Some 10" "number holding_vfinx = Some 20"
    by (simp_all add: holding_aapl_def holding_vfinx_def)
  ultimately show ?thesis
    using st(1) by blast
qed

text \<open>
  Claim C10: the identifier of the transaction of an exported holding is its index in
  the whole list plus one. The identifier of the cash equivalent is the index left by
  the loop plus one: the number of holdings, and 1 for no holding, where the index
  keeps its initial value 0. So, when the last holding is exported and the cash
  equivalent is written, the last two transactions have the same identifier.
\<close>

theorem ofx_fitid:
  assumes "ofx_transactions L options promiscuous trade_date entries = Inr st"
    and "hs = fst (get_assets_holdings L entries None)"
  shows "\<exists>st1 buys cash.
      ofx_loop promiscuous trade_date (get_tickers L entries) (enumerate 0 hs) ofx_initial
        = Inr st1
    \<and> index st1 = (if hs = [] then 0 else length hs - 1)
    \<and> invtranlist_io st = buys @ cash
    \<and> list_all2 (\<lambda>ih t. fitid t = fst ih + 1)
         (filter (\<lambda>ih. \<not> is_excluded (get_tickers L entries) (snd ih)) (enumerate 0 hs)) buys
    \<and> (operating_currency options = [] \<longrightarrow> cash = [])
    \<and> (operating_currency options \<noteq> [] \<longrightarrow>
         (\<exists>t. cash = [t] \<and> uniqueid t = CASH_EQUIVALENT_CURRENCY
            \<and> fitid t = index st1 + 1
            \<and> fitid t = (if hs = [] then 1 else length hs)))
    \<and> (operating_currency options \<noteq> [] \<and> hs \<noteq> []
          \<and> \<not> is_excluded (get_tickers L entries) (last hs) \<longrightarrow>
         (\<exists>ts t1 t2. invtranlist_io st = ts @ [t1, t2]
            \<and> uniqueid t2 = CASH_EQUIVALENT_CURRENCY
            \<and> fitid t1 = length hs \<and> fitid t2 = length hs))"
proof -
  let ?tk = "get_tickers L entries"
  let ?P = "\<lambda>ih. \<not> is_excluded ?tk (snd ih)"
  from ofx_transactions_Inr [OF assms(1)] assms(2) obtain st1 where
    loop: "ofx_loop promiscuous trade_date ?tk (enumerate 0 hs) ofx_initial = Inr st1"
    and cash: "cash_equivalent (convert_to_currency L (snd (get_assets_holdings L entries None)))
          (quantize L) trade_date (operating_currency options) st1 = Inr st"
    by blast
  from ofx_loop_result [OF loop] obtain buys where
    io: "invtranlist_io st1 = invtranlist_io ofx_initial @ buys"
    and buys: "list_all2 (is_buy_of promiscuous trade_date ?tk) (filter ?P (enumerate 0 hs)) buys"
    and ix: "index st1 = (if enumerate 0 hs = [] then index ofx_initial
                          else fst (last (enumerate 0 hs)))"
    by blast
  have io1: "invtranlist_io st1 = buys"
    unfolding io by (simp add: ofx_initial_def)
  have ix1: "index st1 = (if hs = [] then 0 else length hs - 1)"
  proof (cases "hs = []")
    case True
    with ix show ?thesis by (simp add: ofx_initial_def)
  next
    case False
    then have "enumerate 0 hs \<noteq> []"
      by (simp add: enumerate_eq_zip)
    with ix False show ?thesis
      by (simp add: last_enumerate)
  qed
  have fit: "list_all2 (\<lambda>ih t. fitid t = fst ih + 1) (filter ?P (enumerate 0 hs)) buys"
    by (rule list_all2_mono [OF buys]) (simp add: is_buy_of_def)
  show ?thesis
  proof (cases "operating_currency options")
    case Nil
    with cash have "st = st1"
      by (simp add: cash_equivalent_none)
    with io1 have "invtranlist_io st = buys @ []"
      by simp
    with loop ix1 fit Nil show ?thesis
      by blast
  next
    case (Cons c cs)
    from cash_equivalent_some [OF cash [unfolded Cons]] obtain t where
      t: "invtranlist_io st = invtranlist_io st1 @ [t]" "fitid t = index st1 + 1"
        "uniqueid t = CASH_EQUIVALENT_CURRENCY"
      by blast
    from t(1) io1 have io2: "invtranlist_io st = buys @ [t]"
      by simp
    from t(2) ix1 have ft: "fitid t = (if hs = [] then 1 else length hs)"
      by (cases hs) simp_all
    have share: "\<exists>ts t1 t2. invtranlist_io st = ts @ [t1, t2]
            \<and> uniqueid t2 = CASH_EQUIVALENT_CURRENCY
            \<and> fitid t1 = length hs \<and> fitid t2 = length hs"
      if ne: "hs \<noteq> []" and last: "\<not> is_excluded ?tk (last hs)"
    proof -
      from ne have e: "enumerate 0 hs \<noteq> []"
        by (simp add: enumerate_eq_zip)
      from ne have l: "last (enumerate 0 hs) = (length hs - 1, last hs)"
        by (simp add: last_enumerate)
      from last l have "?P (last (enumerate 0 hs))"
        by simp
      from list_all2_filter_last [OF fit e this] l obtain us y where
        "buys = us @ [y]" "fitid y = length hs - 1 + 1"
        by auto
      with ne io2 ft t(3) have "invtranlist_io st = us @ [y, t]"
        "uniqueid t = CASH_EQUIVALENT_CURRENCY" "fitid y = length hs" "fitid t = length hs"
        by (cases hs; simp)+
      then show ?thesis
        by blast
    qed
    have c1: "operating_currency options = [] \<longrightarrow> [t] = []"
      using Cons by simp
    have c2: "operating_currency options \<noteq> [] \<longrightarrow>
         (\<exists>t'. [t] = [t'] \<and> uniqueid t' = CASH_EQUIVALENT_CURRENCY
            \<and> fitid t' = index st1 + 1
            \<and> fitid t' = (if hs = [] then 1 else length hs))"
      using t(2,3) ft by simp
    have c3: "operating_currency options \<noteq> [] \<and> hs \<noteq> []
          \<and> \<not> is_excluded (get_tickers L entries) (last hs) \<longrightarrow>
         (\<exists>ts t1 t2. invtranlist_io st = ts @ [t1, t2]
            \<and> uniqueid t2 = CASH_EQUIVALENT_CURRENCY
            \<and> fitid t1 = length hs \<and> fitid t2 = length hs)"
      using share by blast
    show ?thesis
      by (rule exI [of _ st1], rule exI [of _ buys], rule exI [of _ "[t]"])
         (intro conjI loop ix1 io2 fit c1 c2 c3)
  qed
qed

theorem ofx_fitid_witness:
  "\<exists>st. ofx_transactions (example_ledger example_tickers no_rates)
          \<lparr>operating_currency = [''USD''], title = ''Example''\<rparr> False ''20141102090000.000''
          [holding_usd, holding_aapl] = Inr st
     \<and> [holding_usd, holding_aapl]
         = fst (get_assets_holdings (example_ledger example_tickers no_rates)
                  [holding_usd, holding_aapl] None)
     \<and> (\<exists>ts t1 t2. invtranlist_io st = ts @ [t1, t2]
            \<and> uniqueid t2 = CASH_EQUIVALENT_CURRENCY \<and> fitid t1 = 2 \<and> fitid t2 = 2)"
proof -
  let ?L = "example_ledger example_tickers no_rates"
  have hs: "[holding_usd, holding_aapl]
      = fst (get_assets_holdings ?L [holding_usd, holding_aapl] None)"
    by (simp add: get_assets_holdings_None example_ledger_def)
  have p: "operating_currency \<lparr>operating_currency = [''USD''], title = ''Example''\<rparr> \<noteq> []
      \<and> [holding_usd, holding_aapl] \<noteq> []
      \<and> \<not> is_excluded (get_tickers ?L [holding_usd, holding_aapl])
            (last [holding_usd, holding_aapl])"
    by (simp add: example_excluded example_ledger_def)
  from ofx_fitid [OF example_transactions hs] p
  have "\<exists>ts t1 t2. invtranlist_io \<lparr>invtranlist_io =
               [\<lparr>txntype = ''BUYSTOCK'', fitid = 2, dttrade = ''20141102090000.000'',
                 memo = [], uniqueid = ''NASDAQ:AAPL'', units = 10, unitprice = 100, fee = 0,
                 total' = - 1000, buytype = ''BUY''\<rparr>,
                \<lparr>txntype = ''BUYMF'', fitid = 2, dttrade = ''20141102090000.000'',
                 memo = [], uniqueid = ''VMMXX'', units = 500, unitprice = 1, fee = 0,
                 total' = - 500, buytype = ''BUY''\<rparr>],
              commodities = [(''VMMXX'', ''VMMXX'', False), (''AAPL'', ''NASDAQ:AAPL'', False)],
              skipped_holdings = [holding_usd],
              ignored_commodities = [],
              index = 1\<rparr> = ts @ [t1, t2]
            \<and> uniqueid t2 = CASH_EQUIVALENT_CURRENCY
            \<and> fitid t1 = length [holding_usd, holding_aapl]
            \<and> fitid t2 = length [holding_usd, holding_aapl]"
    by blast
  then have "\<exists>ts t1 t2. invtranlist_io \<lparr>invtranlist_io =
               [\<lparr>txntype = ''BUYSTOCK'', fitid = 2, dttrade = ''20141102090000.000'',
                 memo = [], uniqueid = ''NASDAQ:AAPL'', units = 10, unitprice = 100, fee = 0,
                 total' = - 1000, buytype = ''BUY''\<rparr>,
                \<lparr>txntype = ''BUYMF'', fitid = 2, dttrade = ''20141102090000.000'',
                 memo = [], uniqueid = ''VMMXX'', units = 500, unitprice = 1, fee = 0,
                 total' = - 500, buytype = ''BUY''\<rparr>],
              commodities = [(''VMMXX'', ''VMMXX'', False), (''AAPL'', ''NASDAQ:AAPL'', False)],
              skipped_holdings = [holding_usd],
              ignored_commodities = [],
              index = 1\<rparr> = ts @ [t1, t2]
            \<and> uniqueid t2 = CASH_EQUIVALENT_CURRENCY
            \<and> fitid t1 = 2 \<and> fitid t2 = 2"
    by simp
  with example_transactions hs show ?thesis
    by blast
qed

subsection \<open>The cash equivalent\<close>

lemmas example_defs =
  ofx_document_def render_ofx_def
  ofx_transactions_def get_assets_holdings_def example_ledger_def
      example_tickers_def enumerate_eq_zip ofx_step_def ofx_initial_def cash_equivalent_def
      spec_convert_to_currency_def spec_convert_holding_def py_sum_def py_div_def
      holding_usd_def holding_aapl_def holding_debt_def is_mutual_fund_def MUTF_pattern_def
      CASH_EQUIVALENT_MFUND_def CASH_EQUIVALENT_CURRENCY_def

text \<open>
  Claim C1 asks that the cash equivalent be written only for a total market value that
  is not zero, and that the division never have a zero divisor. The code has no such
  test: with an operating currency, a portfolio in which no holding is skipped, and
  one whose skipped holdings have the market values 500 and -500, both end in the
  division error and nothing is written.
\<close>

theorem cash_equivalent_divides_by_zero:
  "render_ofx (example_ledger example_tickers no_rates)
     \<lparr>operating_currency = [''USD''], title = ''Example''\<rparr> False False
     ''20141104090000.000'' ''20141102090000.000'' [holding_aapl]
     = ([], Some ZeroDivisionError)
   \<and> render_ofx (example_ledger example_tickers no_rates)
     \<lparr>operating_currency = [''USD''], title = ''Example''\<rparr> False False
     ''20141104090000.000'' ''20141102090000.000'' [holding_usd, holding_debt]
     = ([], Some ZeroDivisionError)"
  by (simp add: example_defs)

text \<open>
  Claim C5 asks that the triple of the cash equivalent carry the classification used
  for the type of its transaction. The transaction is written as the purchase of a
  mutual fund (\<^verbatim>\<open>BUYMF\<close>, from \<^verbatim>\<open>CASH_EQUIVALENT_MFUND\<close>), the triple is added with
  \<^verbatim>\<open>False\<close>, and the security list describes the same security as a stock.
\<close>

theorem cash_equivalent_security_is_stock:
  "ofx_transactions (example_ledger example_tickers no_rates)
     \<lparr>operating_currency = [''USD''], title = ''Example''\<rparr> False ''20141102090000.000''
     [holding_usd]
     = Inr \<lparr>invtranlist_io =
              [\<lparr>txntype = ''BUYMF'', fitid = 1, dttrade = ''20141102090000.000'',
                memo = [], uniqueid = ''VMMXX'', units = 500, unitprice = 1, fee = 0,
                total' = - 500, buytype = ''BUY''\<rparr>],
            commodities = [(''VMMXX'', ''VMMXX'', False)],
            skipped_holdings = [holding_usd],
            ignored_commodities = [],
            index = 0\<rparr>
   \<and> seclist_of [(''VMMXX'', ''VMMXX'', False)]
       = SECURITY_format ''STOCKINFO'' ''VMMXX'' ''VMMXX'' ''VMMXX''"
  by (simp add: example_defs seclist_of_def)

subsection \<open>The net worth\<close>

lemmas net_worth_defs =
  NetWorthReport_generate_table_def get_assets_holdings_def example_ledger_def
  example_rates_def spec_convert_to_currency_def spec_convert_holding_def
  spec_aggregate_holdings_by_def group_by_def shared_def per_unit_def truthy_def
  holding_gld_us_def holding_gld_eu_def Let_def

text \<open>
  Claim C2 asks that the net worth in a currency not depend on the other operating
  currencies nor on their order. The loop assigns the aggregated list to the variable
  it converts from, so each currency is computed from the result of the one before.
  Two holdings of the same commodity, one at cost in USD and one in EUR, with rates
  from EUR to USD and from USD to CAD: CAD alone is 125, after USD it is 375; USD
  first is 300, after CAD it is 125.
\<close>

theorem net_worth_depends_on_order:
  "NetWorthReport_generate_table (example_ledger example_tickers example_rates)
     \<lparr>operating_currency = [''CAD''], title = ''Example''\<rparr>
     [holding_gld_us, holding_gld_eu]
     = [(''CAD'', Some 125)]
   \<and> NetWorthReport_generate_table (example_ledger example_tickers example_rates)
     \<lparr>operating_currency = [''USD'', ''CAD''], title = ''Example''\<rparr>
     [holding_gld_us, holding_gld_eu]
     = [(''USD'', Some 300), (''CAD'', Some 375)]
   \<and> NetWorthReport_generate_table (example_ledger example_tickers example_rates)
     \<lparr>operating_currency = [''CAD'', ''USD''], title = ''Example''\<rparr>
     [holding_gld_us, holding_gld_eu]
     = [(''CAD'', Some 125), (''USD'', Some 125)]"
  by (simp add: net_worth_defs)

end
